theory Spec2Isabelle
  imports Main
begin

section \<open>string\_vector.c: the growable array of strings\<close>

text \<open>
  The struct \<^verbatim>\<open>strvec_t\<close> has a pointer to an array of \<^verbatim>\<open>char *\<close>, the number of
  stored strings and the number of allocated slots. A slot is a pointer: \<open>None\<close> is the
  null pointer, \<open>Some s\<close> a pointer to the string \<open>s\<close>. The list \<open>data\<close> holds the
  allocated slots; an array that is not allocated (a failed \<^verbatim>\<open>malloc\<close>, or after
  \<^verbatim>\<open>free\<close>) has no slot. The content of a slot that \<^verbatim>\<open>malloc\<close> or \<^verbatim>\<open>realloc\<close> left
  uninitialised is written \<open>None\<close>; no function below reads such a slot.
\<close>

record strvec =
  data :: "string option list"
  length_v :: nat
  capacity :: nat

definition INITIAL_SIZE :: nat where
  "INITIAL_SIZE = 4"

text \<open>A read or write of a slot outside the allocated array is a memory fault, and so
  is a read through the null pointer.\<close>

datatype fault = OutOfBounds | NullPointer

text \<open>
  \<^verbatim>\<open>strvec_init\<close>: the flag says whether \<^verbatim>\<open>malloc\<close> returned memory. The fields
  \<^verbatim>\<open>length\<close> and \<^verbatim>\<open>capacity\<close> are written before the allocation is checked.
\<close>

definition strvec_init :: "bool \<Rightarrow> int \<times> strvec" where
  "strvec_init malloc_ok =
     (if \<not> malloc_ok
      then (-1, \<lparr>data = [], length_v = 0, capacity = INITIAL_SIZE\<rparr>)
      else (0, \<lparr>data = replicate INITIAL_SIZE None, length_v = 0, capacity = INITIAL_SIZE\<rparr>))"

definition strvec_clear :: "strvec \<Rightarrow> strvec" where
  "strvec_clear vec =
     (if capacity vec = 0 then vec
      else vec\<lparr>data := [], length_v := 0, capacity := 0\<rparr>)"

text \<open>
  \<^verbatim>\<open>strvec_add\<close>: three allocations can happen, in this order: the array of a cleared
  vector, the doubled array, the copy of the string. Each flag says whether that
  allocation returned memory. \<^verbatim>\<open>realloc\<close> gives an array of twice the capacity that
  starts with the old slots. The write of \<^verbatim>\<open>data[length]\<close> is a fault when the array
  has no such slot.
\<close>

definition strvec_add ::
  "bool \<Rightarrow> bool \<Rightarrow> bool \<Rightarrow> strvec \<Rightarrow> string \<Rightarrow> fault + (int \<times> strvec)" where
  "strvec_add init_ok realloc_ok malloc_ok vec s =
     (let r1 = (if capacity vec = 0 then strvec_init init_ok else (0, vec)) in
      if fst r1 \<noteq> 0 then Inr (-1, snd r1)
      else
        let v1 = snd r1 in
        if length_v v1 = capacity v1 \<and> \<not> realloc_ok then Inr (-1, v1)
        else
          let v2 = (if length_v v1 = capacity v1
                    then v1\<lparr>data := take (2 * capacity v1)
                                      (data v1 @ replicate (2 * capacity v1) None),
                            capacity := capacity v1 * 2\<rparr>
                    else v1) in
          if \<not> length_v v2 < length (data v2) then Inl OutOfBounds
          else if \<not> malloc_ok then Inr (-1, v2\<lparr>data := (data v2)[length_v v2 := None]\<rparr>)
          else Inr (0, v2\<lparr>data := (data v2)[length_v v2 := Some s],
                          length_v := length_v v2 + 1\<rparr>))"

text \<open>
  \<^verbatim>\<open>strvec_get\<close>: the index is \<^verbatim>\<open>unsigned\<close>. The result is the pointer read from the
  slot, or the null pointer when the index is not below \<^verbatim>\<open>length\<close>.
\<close>

definition strvec_get :: "strvec \<Rightarrow> nat \<Rightarrow> fault + string option" where
  "strvec_get vec i =
     (if i \<ge> length_v vec then Inr None
      else if i < length (data vec) then Inr (data vec ! i)
      else Inl OutOfBounds)"

text \<open>
  \<^verbatim>\<open>strvec_find\<close> on the struct: the loop over the slots below \<^verbatim>\<open>length\<close>, with
  \<^verbatim>\<open>strcmp\<close> on the string each slot points to.
\<close>

function strvec_find_loop :: "strvec \<Rightarrow> string \<Rightarrow> nat \<Rightarrow> fault + int" where
  "strvec_find_loop vec s i =
     (if i < length_v vec then
        if i < length (data vec) then
          (case data vec ! i of
             None \<Rightarrow> Inl NullPointer
           | Some x \<Rightarrow> if x = s then Inr (int i) else strvec_find_loop vec s (i + 1))
        else Inl OutOfBounds
      else Inr (-1))"
  by pat_completeness auto
termination
  by (relation "measure (\<lambda>(vec, s, i). length_v vec - i)") auto

definition strvec_find_vec :: "strvec \<Rightarrow> string \<Rightarrow> fault + int" where
  "strvec_find_vec vec s = strvec_find_loop vec s 0"

text \<open>\<^verbatim>\<open>strvec_take\<close> frees the strings from position \<open>n\<close> on; their slots keep the
  (now dangling) pointers and lie beyond \<^verbatim>\<open>length\<close>.\<close>

definition strvec_take :: "strvec \<Rightarrow> nat \<Rightarrow> strvec" where
  "strvec_take vec n = (if n \<ge> length_v vec then vec else vec\<lparr>length_v := n\<rparr>)"

text \<open>
  What every vector built by \<^verbatim>\<open>strvec_init\<close>, \<^verbatim>\<open>strvec_add\<close>, \<^verbatim>\<open>strvec_take\<close> and
  \<^verbatim>\<open>strvec_clear\<close> satisfies: the first \<^verbatim>\<open>length\<close> slots are allocated and hold
  strings.
\<close>

definition strvec_ok :: "strvec \<Rightarrow> bool" where
  "strvec_ok vec \<longleftrightarrow>
     length_v vec \<le> length (data vec) \<and>
     list_all (\<lambda>p. p \<noteq> None) (take (length_v vec) (data vec))"

text \<open>The vectors that the four functions can build, starting from \<^verbatim>\<open>strvec_init\<close>.\<close>

inductive built :: "strvec \<Rightarrow> bool" where
  built_init: "built (snd (strvec_init malloc_ok))"
| built_add: "built vec \<Longrightarrow> strvec_add a b c vec s = Inr (r, vec') \<Longrightarrow> built vec'"
| built_take: "built vec \<Longrightarrow> built (strvec_take vec n)"
| built_clear: "built vec \<Longrightarrow> built (strvec_clear vec)"

text \<open>The strings a vector stores, in order.\<close>

definition strvec_strings :: "strvec \<Rightarrow> string list" where
  "strvec_strings vec = map the (take (length_v vec) (data vec))"


section \<open>The job registry and the operating system\<close>

text \<open>
  A job record, with the fields the sources read and write: \<^verbatim>\<open>job->pid\<close>,
  \<^verbatim>\<open>current->name\<close>, \<^verbatim>\<open>job->status\<close>. The status is a C enumeration, which holds any
  integer it is given, so the field is an integer.
\<close>

record job =
  pid :: int
  name :: string
  status :: int

text \<open>
  Modelled from the spec: the enumeration \<^verbatim>\<open>job_status_t\<close> of \<^verbatim>\<open>job_list.h\<close>, which is
  not among the sources. The spec gives the status as an enumeration of Background and
  Stopped; the two enumerators get the values of a C enumeration in that order.
\<close>

definition BACKGROUND :: int where
  "BACKGROUND = 0"

definition STOPPED :: int where
  "STOPPED = 1"

text \<open>
  Modelled from the spec: the functions of \<^verbatim>\<open>job_list.c\<close>, which is not among the
  sources. The spec describes the registry as an ordered sequence of job records with
  append, index-based lookup, index-based removal (later records move down by one) and
  bulk removal by status. The linked list \<^verbatim>\<open>jobs.head\<close>, \<^verbatim>\<open>current->next\<close> is the list
  of its records in order.
\<close>

definition job_list_add :: "job list \<Rightarrow> int \<Rightarrow> string \<Rightarrow> int \<Rightarrow> job list" where
  "job_list_add jobs p n st = jobs @ [\<lparr>pid = p, name = n, status = st\<rparr>]"

definition job_list_get :: "job list \<Rightarrow> int \<Rightarrow> job option" where
  "job_list_get jobs idx =
     (if 0 \<le> idx \<and> idx < int (length jobs) then Some (jobs ! nat idx) else None)"

definition job_list_remove :: "job list \<Rightarrow> int \<Rightarrow> job list" where
  "job_list_remove jobs idx =
     (if 0 \<le> idx \<and> idx < int (length jobs)
      then take (nat idx) jobs @ drop (nat idx + 1) jobs else jobs)"

definition job_list_remove_by_status :: "job list \<Rightarrow> int \<Rightarrow> job list" where
  "job_list_remove_by_status jobs st = filter (\<lambda>j. status j \<noteq> st) jobs"

text \<open>
  The wait status macros of \<^verbatim>\<open>sys/wait.h\<close> on Linux. \<^verbatim>\<open>WIFSIGNALED\<close> converts
  \<^verbatim>\<open>(status & 0x7f) + 1\<close> to a signed char and shifts it right by one.
\<close>

definition WIFEXITED :: "int \<Rightarrow> bool" where
  "WIFEXITED st \<longleftrightarrow> and st 0x7f = 0"

definition WIFSIGNALED :: "int \<Rightarrow> bool" where
  "WIFSIGNALED st \<longleftrightarrow>
     (let t = and st 0x7f + 1; sc = (if t \<ge> 128 then t - 256 else t) in sc div 2 > 0)"

definition WIFSTOPPED :: "int \<Rightarrow> bool" where
  "WIFSTOPPED st \<longleftrightarrow> and st 0xff = 0x7f"

text \<open>
  What the process asks of the operating system and what it prints, in the order it
  happens. The list of these events so far is the history of the run. A message is
  given without its final newline, \<^verbatim>\<open>PrintJob\<close> is one line of the \<^verbatim>\<open>jobs\<close> command.
\<close>

datatype open_flags = RDONLY | WRONLY_CREAT_TRUNC | WRONLY_CREAT_APPEND

datatype signal = SIGCONT | SIGTTIN | SIGTTOU

datatype event =
    Fork
  | GetPid
  | GetPgid int
  | SetPgid int int
  | TcSetPgrp int
  | Kill int signal
  | WaitPid int
  | Open string open_flags
  | Dup2 int int
  | Close int
  | Sigfillset
  | SigactionDefault signal
  | Execvp "string option" "string option list"
  | Malloc
  | Getcwd
  | Chdir string
  | Perror string
  | Stderr string
  | Stdout string
  | PrintJob nat string string

text \<open>
  The operating system and the C library are parameters of the model. The value a call
  returns may depend on everything that happened before it: \<open>ret\<close> gives the return
  value of a call made after a history, \<open>wstatus\<close> the status word that a successful
  \<^verbatim>\<open>waitpid\<close> stores. \<open>sscanf_d\<close> is \<^verbatim>\<open>sscanf(s, "%d", &n)\<close>: the number read, or
  \<open>None\<close> when the call does not return 1. \<open>uninit\<close> is the content of the slots of an
  uninitialised array; \<open>home\<close> is \<^verbatim>\<open>getenv("HOME")\<close>, \<open>cwd\<close> what \<^verbatim>\<open>getcwd\<close> writes.
\<close>

record env =
  ret :: "event list \<Rightarrow> event \<Rightarrow> int"
  wstatus :: "event list \<Rightarrow> int \<Rightarrow> int"
  sscanf_d :: "string \<Rightarrow> int option"
  uninit :: "nat \<Rightarrow> string option"
  home :: "string option"
  cwd :: string

definition sys :: "env \<Rightarrow> event list \<Rightarrow> event \<Rightarrow> int \<times> event list" where
  "sys e tr ev = (ret e tr ev, tr @ [ev])"

text \<open>The events a call added to the history \<open>tr\<close> it started from.\<close>

definition added :: "event list \<Rightarrow> event list \<Rightarrow> event list" where
  "added tr tr' = drop (length tr) tr'"


section \<open>swish\_funcs.c: resuming and awaiting jobs\<close>

text \<open>
  The functions of \<^verbatim>\<open>swish_funcs.c\<close> and \<^verbatim>\<open>swish.c\<close> only read the token vector, except
  for one \<^verbatim>\<open>strvec_take\<close>. They get it as the list of its strings (\<open>strvec_strings\<close>):
  \<^verbatim>\<open>tokens->length\<close> is the length of the list, \<^verbatim>\<open>tokens->data[i]\<close> its element \<open>i\<close>,
  and \<^verbatim>\<open>strvec_find\<close> on the list gives what the function on the struct gives
  (\<open>strvec_find_vec_strings\<close> below).

  Every function returns \<^verbatim>\<open>-1\<close> on each of its error paths, after printing a diagnostic.
  The model returns \<open>Inl\<close> with the error path taken for \<^verbatim>\<open>-1\<close> and \<open>Inr ()\<close> for
  \<^verbatim>\<open>0\<close>. \<open>InvalidIndex\<close> is the path of the diagnostic "Job index out of bounds",
  \<open>WrongJobType\<close> the one of "Job index is for stopped process not background
  process", \<open>SystemCallFailure\<close> carries the name given to \<^verbatim>\<open>perror\<close>.
\<close>

datatype error =
    Usage
  | InvalidNumber
  | InvalidIndex
  | WrongJobType
  | SystemCallFailure string

type_synonym result = "(error + unit) \<times> job list \<times> event list"

definition resume_job :: "env \<Rightarrow> string list \<Rightarrow> job list \<Rightarrow> bool \<Rightarrow> event list \<Rightarrow> result" where
  "resume_job e tokens jobs is_foreground tr =
     (if length tokens < 2 then (Inl Usage, jobs, tr @ [Stderr ''Usage: fg/bg <job_number>''])
      else case sscanf_d e (tokens ! 1) of
        None \<Rightarrow> (Inl InvalidNumber, jobs, tr @ [Stderr ''Invalid job number''])
      | Some job_index \<Rightarrow>
      (case job_list_get jobs job_index of
        None \<Rightarrow> (Inl InvalidIndex, jobs, tr @ [Stderr ''Job index out of bounds''])
      | Some job \<Rightarrow>
        let (shell_pgid, tr1) = sys e tr (GetPgid 0);
            (r2, tr2) = (if is_foreground then sys e tr1 (TcSetPgrp (pid job)) else (0, tr1)) in
        if r2 = -1 then (Inl (SystemCallFailure ''tcsetpgrp''), jobs, tr2 @ [Perror ''tcsetpgrp''])
        else
          let (r3, tr3) = sys e tr2 (Kill (- pid job) SIGCONT) in
          if r3 = -1 then (Inl (SystemCallFailure ''kill''), jobs, tr3 @ [Perror ''kill''])
          else if is_foreground then
            let (r4, tr4) = sys e tr3 (WaitPid (pid job));
                st = wstatus e tr3 (pid job) in
            if r4 < 0 then (Inl (SystemCallFailure ''waitpid''), jobs, tr4 @ [Perror ''waitpid''])
            else
              let jobs' = (if WIFEXITED st \<or> WIFSIGNALED st then job_list_remove jobs job_index
                           else if WIFSTOPPED st
                           then jobs[nat job_index := job\<lparr>status := STOPPED\<rparr>]
                           else jobs);
                  (r5, tr5) = sys e tr4 (TcSetPgrp shell_pgid) in
              if r5 = -1
              then (Inl (SystemCallFailure ''tcsetpgrp''), jobs', tr5 @ [Perror ''tcsetpgrp''])
              else (Inr (), jobs', tr5)
          else (Inr (), jobs[nat job_index := job\<lparr>status := BACKGROUND\<rparr>], tr3)))"

definition await_background_job :: "env \<Rightarrow> string list \<Rightarrow> job list \<Rightarrow> event list \<Rightarrow> result" where
  "await_background_job e tokens jobs tr =
     (if length tokens < 2 then (Inl Usage, jobs, tr @ [Stderr ''Usage: wait-for <job_number>''])
      else case sscanf_d e (tokens ! 1) of
        None \<Rightarrow> (Inl InvalidNumber, jobs, tr @ [Stderr ''Invalid job number''])
      | Some job_index \<Rightarrow>
      (case job_list_get jobs job_index of
        None \<Rightarrow> (Inl InvalidIndex, jobs, tr @ [Stderr ''Job index out of bounds''])
      | Some job \<Rightarrow>
        if status job \<noteq> BACKGROUND
        then (Inl WrongJobType, jobs,
              tr @ [Stderr ''Job index is for stopped process not background process''])
        else
          let (r, tr1) = sys e tr (WaitPid (pid job));
              st = wstatus e tr (pid job) in
          if r < 0 then (Inl (SystemCallFailure ''waitpid''), jobs, tr1 @ [Perror ''waitpid''])
          else if WIFEXITED st \<or> WIFSIGNALED st
          then (Inr (), job_list_remove jobs job_index, tr1)
          else (Inr (), jobs, tr1)))"

text \<open>
  The first pass of \<^verbatim>\<open>await_all_background_jobs\<close>: the loop over the linked list.
  \<open>rest\<close> holds the records from \<^verbatim>\<open>current\<close> on, \<open>visited\<close> the records already
  visited, with the status the loop gave them.
\<close>

fun await_first_pass :: "env \<Rightarrow> job list \<Rightarrow> job list \<Rightarrow> event list \<Rightarrow> result" where
  "await_first_pass e visited [] tr = (Inr (), visited, tr)"
| "await_first_pass e visited (current # rest) tr =
     (if status current = BACKGROUND then
        let (r, tr1) = sys e tr (WaitPid (pid current));
            st = wstatus e tr (pid current) in
        if r < 0
        then (Inl (SystemCallFailure ''waitpid''), visited @ current # rest, tr1 @ [Perror ''waitpid''])
        else if WIFSTOPPED st
        then await_first_pass e (visited @ [current\<lparr>status := STOPPED\<rparr>]) rest tr1
        else await_first_pass e (visited @ [current]) rest tr1
      else await_first_pass e (visited @ [current]) rest tr)"

definition await_all_background_jobs :: "env \<Rightarrow> job list \<Rightarrow> event list \<Rightarrow> result" where
  "await_all_background_jobs e jobs tr =
     (case await_first_pass e [] jobs tr of
        (Inl err, jobs1, tr1) \<Rightarrow> (Inl err, jobs1, tr1)
      | (Inr u, jobs1, tr1) \<Rightarrow> (Inr (), job_list_remove_by_status jobs1 BACKGROUND, tr1))"


section \<open>swish\_funcs.c: running a command\<close>

text \<open>
  \<^verbatim>\<open>strvec_find\<close> on the list of the vector's strings: the position of the first string
  equal to \<open>s\<close>, or \<^verbatim>\<open>-1\<close>. \<open>i\<close> is the loop counter.
\<close>

fun strvec_find_from :: "string list \<Rightarrow> string \<Rightarrow> int \<Rightarrow> int" where
  "strvec_find_from [] s i = -1"
| "strvec_find_from (x # xs) s i = (if x = s then i else strvec_find_from xs s (i + 1))"

definition strvec_find :: "string list \<Rightarrow> string \<Rightarrow> int" where
  "strvec_find tokens s = strvec_find_from tokens s 0"

text \<open>
  How a call of \<^verbatim>\<open>run_command\<close> ends: it returns a value, or the process ends in
  \<^verbatim>\<open>_exit\<close>, or \<^verbatim>\<open>execvp\<close> replaces the process image and nothing returns.
\<close>

datatype run_result = Returned int | Exited int | Replaced

definition STDIN_FILENO :: int where
  "STDIN_FILENO = 0"

definition STDOUT_FILENO :: int where
  "STDOUT_FILENO = 1"

text \<open>
  The two redirection blocks; the flag says whether the function goes on. \<open>output_dup\<close>
  is the part of the output block after the file was opened in either mode.
\<close>

definition input_redirection :: "env \<Rightarrow> string list \<Rightarrow> int \<Rightarrow> event list \<Rightarrow> bool \<times> event list" where
  "input_redirection e tokens in_index tr =
     (if in_index \<noteq> -1 then
        if in_index + 1 \<ge> int (length tokens)
        then (False, tr @ [Perror ''Error: No input file specified.''])
        else
          let (fd, tr1) = sys e tr (Open (tokens ! nat (in_index + 1)) RDONLY) in
          if fd < 0 then (False, tr1 @ [Perror ''Failed to open input file''])
          else
            let (r, tr2) = sys e tr1 (Dup2 fd STDIN_FILENO) in
            if r < 0
            then (False, tr2 @ [Perror ''dup2 failed for input redirection'', Close fd])
            else (True, tr2 @ [Close fd])
      else (True, tr))"

definition output_dup :: "env \<Rightarrow> int \<times> event list \<Rightarrow> bool \<times> event list" where
  "output_dup e opened =
     (let (fd_out, tr1) = opened in
      if fd_out < 0 then (False, tr1 @ [Perror ''Failed to open output file''])
      else
        let (r, tr2) = sys e tr1 (Dup2 fd_out STDOUT_FILENO) in
        if r < 0
        then (False, tr2 @ [Perror ''dup2 failed for output redirection'', Close fd_out])
        else (True, tr2 @ [Close fd_out]))"

definition output_redirection ::
  "env \<Rightarrow> string list \<Rightarrow> int \<Rightarrow> int \<Rightarrow> event list \<Rightarrow> bool \<times> event list" where
  "output_redirection e tokens out_index append_index tr =
     (if out_index \<noteq> -1 \<or> append_index \<noteq> -1 then
        if out_index \<noteq> -1 then
          if out_index + 1 \<ge> int (length tokens)
          then (False, tr @ [Perror ''Error: No output file specified.''])
          else output_dup e (sys e tr (Open (tokens ! nat (out_index + 1)) WRONLY_CREAT_TRUNC))
        else
          if append_index + 1 \<ge> int (length tokens)
          then (False, tr @ [Perror ''Error: No output file specified.''])
          else output_dup e (sys e tr (Open (tokens ! nat (append_index + 1)) WRONLY_CREAT_APPEND))
      else (True, tr))"

text \<open>
  The loop that fills \<^verbatim>\<open>args\<close>: \<open>i\<close> runs over the tokens, \<open>j\<close> counts the slots
  written. The array has one slot more than there are tokens, and the slots written
  are the first \<open>j\<close> ones, so every write is inside it (\<open>build_args_loop\<close> below).
\<close>

definition skipped :: "int \<Rightarrow> int \<Rightarrow> int \<Rightarrow> nat \<Rightarrow> bool" where
  "skipped in_index out_index append_index i \<longleftrightarrow>
     (in_index \<noteq> -1 \<and> (int i = in_index \<or> int i = in_index + 1)) \<or>
     (out_index \<noteq> -1 \<and> (int i = out_index \<or> int i = out_index + 1)) \<or>
     (append_index \<noteq> -1 \<and> (int i = append_index \<or> int i = append_index + 1))"

function build_args ::
  "string list \<Rightarrow> int \<Rightarrow> int \<Rightarrow> int \<Rightarrow> nat \<Rightarrow> nat \<Rightarrow> string option list
     \<Rightarrow> nat \<times> string option list" where
  "build_args tokens in_index out_index append_index i j args =
     (if i < length tokens then
        if skipped in_index out_index append_index i
        then build_args tokens in_index out_index append_index (i + 1) j args
        else build_args tokens in_index out_index append_index (i + 1) (j + 1)
               (args[j := Some (tokens ! i)])
      else (j, args))"
  by pat_completeness auto
termination
  by (relation "measure (\<lambda>(tokens, in_index, out_index, append_index, i, j, args).
        length tokens - i)") auto

text \<open>The array handed to \<^verbatim>\<open>execvp\<close>: the loop, then \<^verbatim>\<open>args[j] = NULL\<close>.\<close>

definition argv :: "env \<Rightarrow> string list \<Rightarrow> string option list" where
  "argv e tokens =
     (let args0 = map (uninit e) [0 ..< length tokens + 1];
          (j, args) = build_args tokens (strvec_find tokens ''<'') (strvec_find tokens ''>'')
                        (strvec_find tokens ''>>'') 0 0 args0
      in args[j := None])"

text \<open>
  Restoring the default handlers, the process group, and \<^verbatim>\<open>execvp\<close>. A return value
  of \<^verbatim>\<open>execvp\<close> that is not negative stands for a call that succeeded, which does not
  return.
\<close>

definition exec_command :: "env \<Rightarrow> string option list \<Rightarrow> event list \<Rightarrow> run_result \<times> event list" where
  "exec_command e args tr =
     (let (r1, tr1) = sys e tr Sigfillset in
      if r1 = -1 then (Returned (-1), tr1 @ [Perror ''sigfillset''])
      else
        let (r2, tr2) = sys e tr1 (SigactionDefault SIGTTIN) in
        if r2 = -1 then (Returned (-1), tr2 @ [Perror ''sigaction''])
        else
          let (r3, tr3) = sys e tr2 (SigactionDefault SIGTTOU) in
          if r3 = -1 then (Returned (-1), tr3 @ [Perror ''sigaction''])
          else
            let (p, tr4) = sys e tr3 GetPid;
                (r5, tr5) = sys e tr4 (SetPgid p p) in
            if r5 = -1 then (Returned (-1), tr5 @ [Perror ''setpgid''])
            else
              let (r6, tr6) = sys e tr5 (Execvp (args ! 0) args) in
              if r6 < 0 then (Exited 1, tr6 @ [Perror ''exec''])
              else (Replaced, tr6))"

definition run_command :: "env \<Rightarrow> string list \<Rightarrow> event list \<Rightarrow> run_result \<times> event list" where
  "run_command e tokens tr =
     (if length tokens = 0 then (Returned (-1), tr @ [Stderr ''Error: No command to execute.''])
      else
        let in_index = strvec_find tokens ''<'';
            out_index = strvec_find tokens ''>'';
            append_index = strvec_find tokens ''>>'';
            (ok1, tr1) = input_redirection e tokens in_index tr in
        if \<not> ok1 then (Returned (-1), tr1)
        else
          let (ok2, tr2) = output_redirection e tokens out_index append_index tr1 in
          if \<not> ok2 then (Returned (-1), tr2)
          else exec_command e (argv e tokens) tr2)"


section \<open>swish.c: one round of the command loop\<close>

text \<open>
  How one round of the loop in \<^verbatim>\<open>main\<close> ends: the loop goes on to the next prompt with
  a registry, or \<^verbatim>\<open>main\<close> returns and the shell process ends, or this process is the
  forked child and ends or is replaced, or the round reads \<^verbatim>\<open>tokens.data[0]\<close> of a
  vector that has no string left.
\<close>

datatype outcome =
    Continue "job list"
  | Return int
  | ChildExit int
  | ChildReplaced
  | InvalidRead

definition PROMPT :: string where
  "PROMPT = ''@> ''"

text \<open>The last branch of the loop body: a command that is not built in.\<close>

definition launch :: "env \<Rightarrow> string list \<Rightarrow> job list \<Rightarrow> event list \<Rightarrow> outcome \<times> event list" where
  "launch e tokens0 jobs tr =
     (let background = (length tokens0 > 0 \<and> tokens0 ! (length tokens0 - 1) = ''&'');
          tokens = (if background then take (length tokens0 - 1) tokens0 else tokens0);
          (cpid, tr1) = sys e tr Fork in
      if cpid < 0 then (Return 1, tr1 @ [Perror ''fork failed.''])
      else if cpid = 0 then
        (case run_command e tokens tr1 of
           (Returned r, tr2) \<Rightarrow> (ChildExit (if r = -1 then 1 else 0), tr2)
         | (Exited c, tr2) \<Rightarrow> (ChildExit c, tr2)
         | (Replaced, tr2) \<Rightarrow> (ChildReplaced, tr2))
      else if background then
        (if tokens = [] then (InvalidRead, tr1)
         else (Continue (job_list_add jobs cpid (tokens ! 0) BACKGROUND), tr1))
      else
        let (shell_pid, tr2) = sys e tr1 GetPid;
            (r3, tr3) = sys e tr2 (SetPgid cpid cpid) in
        if r3 = -1 then (Return (-1), tr3 @ [Perror ''setpgid failed''])
        else
          let (r4, tr4) = sys e tr3 (TcSetPgrp cpid) in
          if r4 = -1 then (Return (-1), tr4 @ [Perror ''tcsetpgrp failed''])
          else
            let (terminated_pid, tr5) = sys e tr4 (WaitPid cpid);
                st = wstatus e tr4 cpid in
            if terminated_pid < 0 then (Return (-1), tr5 @ [Perror ''waitpid() failed''])
            else
              let (r6, tr6) = sys e tr5 (TcSetPgrp shell_pid) in
              if r6 = -1
              then (Return (-1), tr6 @ [Perror ''Restoring parent process group failed''])
              else if WIFSTOPPED st then
                (if tokens = [] then (InvalidRead, tr6)
                 else (Continue (job_list_add jobs cpid (tokens ! 0) st), tr6))
              else (Continue jobs, tr6))"

text \<open>The built-in commands that do not touch jobs.\<close>

definition builtin_pwd :: "env \<Rightarrow> job list \<Rightarrow> event list \<Rightarrow> outcome \<times> event list" where
  "builtin_pwd e jobs tr =
     (let (buffer, tr1) = sys e tr Malloc in
      if buffer = 0 then (Return (-1), tr1 @ [Perror ''unable to allocate memory.''])
      else
        let (r, tr2) = sys e tr1 Getcwd in
        if r = 0 then (Return (-1), tr2 @ [Perror ''getcwd''])
        else (Continue jobs, tr2 @ [Stdout (cwd e)]))"

definition chdir_home :: "env \<Rightarrow> event list \<Rightarrow> event list" where
  "chdir_home e tr =
     (case home e of
        None \<Rightarrow> tr @ [Stderr ''cd: HOME environment variable not set properly'']
      | Some h \<Rightarrow>
          let (r, tr1) = sys e tr (Chdir h) in
          if r \<noteq> 0 then tr1 @ [Perror ''chdir''] else tr1)"

definition builtin_cd :: "env \<Rightarrow> string list \<Rightarrow> job list \<Rightarrow> event list \<Rightarrow> outcome \<times> event list" where
  "builtin_cd e tokens jobs tr =
     (if 1 < length tokens then
        let (r, tr1) = sys e tr (Chdir (tokens ! 1)) in
        if r \<noteq> 0 then (Continue jobs, chdir_home e (tr1 @ [Perror ''chdir'']))
        else (Continue jobs, tr1)
      else (Continue jobs, chdir_home e tr))"

definition builtin_jobs :: "job list \<Rightarrow> event list \<Rightarrow> event list" where
  "builtin_jobs jobs tr =
     tr @ map (\<lambda>i. PrintJob i (name (jobs ! i))
                  (if status (jobs ! i) = BACKGROUND then ''background'' else ''stopped''))
            [0 ..< length jobs]"

text \<open>
  The body of the loop for a line that was split into tokens. A round that goes on
  prints the prompt for the next command; \<^verbatim>\<open>exit\<close> leaves the loop and \<^verbatim>\<open>main\<close>
  returns 0.
\<close>

definition dispatch :: "env \<Rightarrow> string list \<Rightarrow> job list \<Rightarrow> event list \<Rightarrow> outcome \<times> event list" where
  "dispatch e tokens jobs tr =
     (let first_token = tokens ! 0 in
      if first_token = ''pwd'' then builtin_pwd e jobs tr
      else if first_token = ''cd'' then builtin_cd e tokens jobs tr
      else if first_token = ''exit'' then (Return 0, tr)
      else if first_token = ''jobs'' then (Continue jobs, builtin_jobs jobs tr)
      else if first_token = ''fg'' then
        (case resume_job e tokens jobs True tr of
           (Inl err, jobs1, tr1) \<Rightarrow> (Continue jobs1, tr1 @ [Stdout ''Failed to resume job in foreground''])
         | (Inr u, jobs1, tr1) \<Rightarrow> (Continue jobs1, tr1))
      else if first_token = ''bg'' then
        (case resume_job e tokens jobs False tr of
           (Inl err, jobs1, tr1) \<Rightarrow> (Continue jobs1, tr1 @ [Stdout ''Failed to resume job in background''])
         | (Inr u, jobs1, tr1) \<Rightarrow> (Continue jobs1, tr1))
      else if first_token = ''wait-for'' then
        (case await_background_job e tokens jobs tr of
           (Inl err, jobs1, tr1) \<Rightarrow> (Continue jobs1, tr1 @ [Stdout ''Failed to wait for background job''])
         | (Inr u, jobs1, tr1) \<Rightarrow> (Continue jobs1, tr1))
      else if first_token = ''wait-all'' then
        (case await_all_background_jobs e jobs tr of
           (Inl err, jobs1, tr1) \<Rightarrow>
             (Continue jobs1, tr1 @ [Stdout ''Failed to wait for all background jobs''])
         | (Inr u, jobs1, tr1) \<Rightarrow> (Continue jobs1, tr1))
      else launch e tokens jobs tr)"

definition main_step :: "env \<Rightarrow> string list \<Rightarrow> job list \<Rightarrow> event list \<Rightarrow> outcome \<times> event list" where
  "main_step e tokens jobs tr =
     (if length tokens = 0 then (Continue jobs, tr @ [Stdout PROMPT])
      else
        case dispatch e tokens jobs tr of
          (Continue jobs1, tr1) \<Rightarrow> (Continue jobs1, tr1 @ [Stdout PROMPT])
        | (out, tr1) \<Rightarrow> (out, tr1))"


section \<open>The argument vector, in the words of the spec\<close>









section \<open>The sweep of wait-all, in the words of the spec\<close>

text \<open>
  The spec describes \<^verbatim>\<open>wait-all\<close> as two passes. The first blocks on every Background
  record in registry order: before it reaches record \<open>i\<close> it has waited for the
  Background records among the first \<open>i\<close>, so the status word reported for record \<open>i\<close>
  is the one the operating system gives after those waits. A record reported as stopped
  becomes Stopped, every other record stays as it is. The second pass removes the
  records still marked Background.
\<close>

definition waits_before :: "job list \<Rightarrow> nat \<Rightarrow> event list" where
  "waits_before jobs i =
     map (\<lambda>j. WaitPid (pid j)) (filter (\<lambda>j. status j = BACKGROUND) (take i jobs))"

definition reported :: "env \<Rightarrow> event list \<Rightarrow> job list \<Rightarrow> nat \<Rightarrow> int" where
  "reported e tr jobs i = wstatus e (tr @ waits_before jobs i) (pid (jobs ! i))"

definition first_pass_spec :: "env \<Rightarrow> event list \<Rightarrow> job list \<Rightarrow> job list" where
  "first_pass_spec e tr jobs =
     map (\<lambda>i. if status (jobs ! i) = BACKGROUND \<and> WIFSTOPPED (reported e tr jobs i)
              then (jobs ! i)\<lparr>status := STOPPED\<rparr> else jobs ! i)
       [0 ..< length jobs]"

definition wait_all_spec :: "env \<Rightarrow> event list \<Rightarrow> job list \<Rightarrow> job list" where
  "wait_all_spec e tr jobs = filter (\<lambda>j. status j \<noteq> BACKGROUND) (first_pass_spec e tr jobs)"

text \<open>Every wait of the first pass returns a process, none fails.\<close>

definition waits_succeed :: "env \<Rightarrow> event list \<Rightarrow> job list \<Rightarrow> bool" where
  "waits_succeed e tr jobs =
     list_all (\<lambda>i. status (jobs ! i) \<noteq> BACKGROUND \<or>
                   0 \<le> ret e (tr @ waits_before jobs i) (WaitPid (pid (jobs ! i))))
       [0 ..< length jobs]"


section \<open>Environments for the examples\<close>

text \<open>
  An operating system in which every call succeeds: \<^verbatim>\<open>fork\<close> returns the child 101 to
  the parent, the shell is process 100 in group 100, \<^verbatim>\<open>open\<close> returns the descriptor 3,
  \<^verbatim>\<open>waitpid\<close> returns the process it waited for and reports the status that \<open>sts\<close>
  gives for it. \<open>example_sscanf\<close> is \<^verbatim>\<open>sscanf\<close> with \<^verbatim>\<open>%d\<close> on the strings the
  examples use.
\<close>

definition example_ret :: "event \<Rightarrow> int" where
  "example_ret ev =
     (case ev of
        Fork \<Rightarrow> 101
      | GetPid \<Rightarrow> 100
      | GetPgid p \<Rightarrow> 100
      | Open f fl \<Rightarrow> 3
      | WaitPid p \<Rightarrow> p
      | Malloc \<Rightarrow> 1
      | Getcwd \<Rightarrow> 1
      | _ \<Rightarrow> 0)"

definition example_sscanf :: "string \<Rightarrow> int option" where
  "example_sscanf s =
     (if s = ''0'' then Some 0 else if s = ''1'' then Some 1
      else if s = ''5'' then Some 5 else None)"

definition example_env :: "(int \<Rightarrow> int) \<Rightarrow> env" where
  "example_env sts =
     \<lparr>ret = (\<lambda>tr. example_ret), wstatus = (\<lambda>tr. sts), sscanf_d = example_sscanf,
      uninit = (\<lambda>k. Some ''junk''), home = None, cwd = ''/''\<rparr>"

text \<open>The same operating system, except that every call of \<open>bad\<close> fails with \<^verbatim>\<open>-1\<close>.\<close>

definition failing_env :: "event \<Rightarrow> (int \<Rightarrow> int) \<Rightarrow> env" where
  "failing_env bad sts =
     (example_env sts)\<lparr>ret := (\<lambda>tr ev. if ev = bad then -1 else example_ret ev)\<rparr>"

text \<open>The status words of a process stopped by \<^verbatim>\<open>SIGSTOP\<close> (19) and by \<^verbatim>\<open>SIGTSTP\<close> (20),
  of a process that exited with code 0, and of one killed by \<^verbatim>\<open>SIGKILL\<close> (9).\<close>

definition STATUS_SIGSTOP :: int where
  "STATUS_SIGSTOP = 0x137f"

definition STATUS_SIGTSTP :: int where
  "STATUS_SIGTSTP = 0x147f"

definition STATUS_EXIT0 :: int where
  "STATUS_EXIT0 = 0"

definition STATUS_SIGKILL :: int where
  "STATUS_SIGKILL = 9"


section \<open>Properties of the string vector\<close>

lemma strvec_ok_nth:
  assumes "strvec_ok vec" and "i < length_v vec"
  shows "i < length (data vec)" and "data vec ! i \<noteq> None"
proof -
  from assms show "i < length (data vec)"
    by (simp add: strvec_ok_def)
  from assms have "\<forall>p \<in> set (take (length_v vec) (data vec)). p \<noteq> None"
    by (simp add: strvec_ok_def list_all_iff)
  moreover from assms have "data vec ! i \<in> set (take (length_v vec) (data vec))"
    by (metis strvec_ok_def length_take min.absorb2 nth_mem nth_take)
  ultimately show "data vec ! i \<noteq> None"
    by blast
qed

lemma strvec_init_ok: "strvec_ok (snd (strvec_init b))"
  by (simp add: strvec_init_def strvec_ok_def)

lemma strvec_clear_ok: "strvec_ok (strvec_clear vec) \<longleftrightarrow> capacity vec \<noteq> 0 \<or> strvec_ok vec"
  by (simp add: strvec_clear_def strvec_ok_def)

lemma strvec_take_ok:
  assumes "strvec_ok vec"
  shows "strvec_ok (strvec_take vec n)"
proof (cases "n \<ge> length_v vec")
  case True
  with assms show ?thesis by (simp add: strvec_take_def)
next
  case False
  then have "set (take n (data vec)) \<subseteq> set (take (length_v vec) (data vec))"
    by (intro set_take_subset_set_take) simp
  with assms False show ?thesis
    by (auto simp: strvec_take_def strvec_ok_def list_all_iff)
qed

lemma strvec_add_ok:
  assumes "strvec_ok vec" and "strvec_add a b c vec s = Inr (r, vec')"
  shows "strvec_ok vec'"
proof -
  define v1 where "v1 = snd (if capacity vec = 0 then strvec_init a else (0, vec))"
  have ok1: "strvec_ok v1"
    using assms(1) by (simp add: v1_def strvec_init_ok)
  define v2 where "v2 = (if length_v v1 = capacity v1
      then v1\<lparr>data := take (2 * capacity v1) (data v1 @ replicate (2 * capacity v1) None),
              capacity := capacity v1 * 2\<rparr>
      else v1)"
  have ok2: "strvec_ok v2"
    using ok1 by (auto simp: v2_def strvec_ok_def)
  have upd: "strvec_ok (v2\<lparr>data := (data v2)[length_v v2 := p]\<rparr>)" for p
    using ok2 by (simp add: strvec_ok_def)
  have grow: "strvec_ok (v2\<lparr>data := (data v2)[length_v v2 := Some s],
      length_v := length_v v2 + 1\<rparr>)" if "length_v v2 < length (data v2)"
    using ok2 that by (simp add: strvec_ok_def take_Suc_conv_app_nth)
  from assms(2) have "vec' = v1 \<or> vec' = v2\<lparr>data := (data v2)[length_v v2 := None]\<rparr>
      \<or> (length_v v2 < length (data v2) \<and>
          vec' = v2\<lparr>data := (data v2)[length_v v2 := Some s], length_v := length_v v2 + 1\<rparr>)"
    unfolding strvec_add_def Let_def v1_def [symmetric]
    unfolding v2_def [symmetric]
    by (auto split: if_splits)
  with ok1 upd grow show ?thesis by blast
qed

lemma built_ok: "built vec \<Longrightarrow> strvec_ok vec"
proof (induction rule: built.induct)
  case (built_init malloc_ok)
  show ?case by (rule strvec_init_ok)
next
  case (built_add vec a b c s r vec')
  then show ?case by (blast intro: strvec_add_ok)
next
  case (built_take vec n)
  then show ?case by (simp add: strvec_take_ok)
next
  case (built_clear vec)
  then show ?case by (simp add: strvec_clear_ok)
qed

text \<open>On such a vector \<^verbatim>\<open>strvec_find\<close> never faults and is the search in the list of its
  strings.\<close>

lemma strvec_find_loop_strings:
  assumes "strvec_ok vec" and "i \<le> length_v vec"
  shows "strvec_find_loop vec s i = Inr (strvec_find_from (drop i (strvec_strings vec)) s (int i))"
  using assms
proof (induction vec s i rule: strvec_find_loop.induct)
  case (1 vec s i)
  note step = strvec_find_loop.simps [of vec s i]
  show ?case
  proof (cases "i < length_v vec")
    case False
    with "1.prems" step show ?thesis
      by (simp add: strvec_strings_def strvec_ok_def del: strvec_find_loop.simps)
  next
    case True
    from strvec_ok_nth [OF "1.prems"(1) True] obtain x where
      inb: "i < length (data vec)" and x: "data vec ! i = Some x"
      by auto
    have len: "length (strvec_strings vec) = length_v vec"
      using "1.prems"(1) by (simp add: strvec_strings_def strvec_ok_def)
    have nth: "strvec_strings vec ! i = x"
      using True inb x by (simp add: strvec_strings_def)
    have dr: "drop i (strvec_strings vec) = x # drop (i + 1) (strvec_strings vec)"
      using True len nth Cons_nth_drop_Suc [of i "strvec_strings vec"] by simp
    show ?thesis
    proof (cases "x = s")
      case same: True
      with True inb x step show ?thesis
        by (simp add: dr del: strvec_find_loop.simps)
    next
      case diff: False
      from True have "i + 1 \<le> length_v vec" by simp
      from "1.IH" [OF True inb x diff "1.prems"(1) this] True inb x diff step show ?thesis
        by (simp add: dr add.commute del: strvec_find_loop.simps)
    qed
  qed
qed

lemma strvec_find_vec_strings:
  "strvec_ok vec \<Longrightarrow> strvec_find_vec vec s = Inr (strvec_find (strvec_strings vec) s)"
  using strvec_find_loop_strings [of vec 0 s]
  by (simp add: strvec_find_vec_def strvec_find_def del: strvec_find_loop.simps)

text \<open>
  C10. On a vector whose first \<^verbatim>\<open>length\<close> slots hold strings, as every vector built
  through the functions above does (\<open>built_ok\<close>), \<^verbatim>\<open>strvec_get\<close> never faults,
  returns the null pointer exactly when the index is greater than or equal to the
  vector's length, and otherwise returns the pointer stored in that slot, which is the
  string at that position.
\<close>

theorem strvec_get_null_iff_out_of_range:
  assumes "strvec_ok vec"
  shows "strvec_get vec i \<noteq> Inl OutOfBounds \<and>
         (strvec_get vec i = Inr None \<longleftrightarrow> i \<ge> length_v vec) \<and>
         (i < length_v vec \<longrightarrow> strvec_get vec i = Inr (Some (strvec_strings vec ! i)))"
proof (cases "i < length_v vec")
  case True
  from strvec_ok_nth [OF assms True] True show ?thesis
    by (auto simp: strvec_get_def strvec_strings_def)
next
  case False
  then show ?thesis
    by (simp add: strvec_get_def)
qed

theorem strvec_get_null_iff_out_of_range_witness:
  "strvec_ok \<lparr>data = [Some ''ls'', Some ''-l'', None, None], length_v = 2, capacity = 4\<rparr> \<and>
   strvec_get \<lparr>data = [Some ''ls'', Some ''-l'', None, None], length_v = 2, capacity = 4\<rparr> 1
     = Inr (Some ''-l'') \<and>
   strvec_get \<lparr>data = [Some ''ls'', Some ''-l'', None, None], length_v = 2, capacity = 4\<rparr> 2
     = Inr None"
  using strvec_get_null_iff_out_of_range
    [of "\<lparr>data = [Some ''ls'', Some ''-l'', None, None], length_v = 2, capacity = 4\<rparr>" 1]
  by (simp add: strvec_ok_def strvec_get_def strvec_strings_def)


section \<open>Wait status words and registry lookups\<close>

lemma WIFSTOPPED_low7:
  assumes "WIFSTOPPED st"
  shows "and st 0x7f = 0x7f"
proof -
  from assms have h: "and st 0xff = 0x7f"
    by (simp add: WIFSTOPPED_def)
  have "and st 0x7f = and st (and 0xff 0x7f)"
    by simp
  also have "\<dots> = and (and st 0xff) 0x7f"
    by (simp only: and.assoc)
  also have "\<dots> = 0x7f"
    by (simp add: h)
  finally show ?thesis .
qed

lemma WIFSTOPPED_not_terminated:
  "WIFSTOPPED st \<Longrightarrow> \<not> WIFEXITED st \<and> \<not> WIFSIGNALED st"
  by (frule WIFSTOPPED_low7) (simp add: WIFEXITED_def WIFSIGNALED_def)

lemma WIFSTOPPED_not_STOPPED: "WIFSTOPPED st \<Longrightarrow> st \<noteq> STOPPED"
  by (auto simp: WIFSTOPPED_def STOPPED_def)

lemma example_statuses:
  "WIFSTOPPED STATUS_SIGSTOP" "WIFSTOPPED STATUS_SIGTSTP"
  "WIFEXITED STATUS_EXIT0" "\<not> WIFSTOPPED STATUS_EXIT0"
  "WIFSIGNALED STATUS_SIGKILL" "\<not> WIFSTOPPED STATUS_SIGKILL" "\<not> WIFEXITED STATUS_SIGKILL"
  by (simp_all add: WIFSTOPPED_def WIFEXITED_def WIFSIGNALED_def STATUS_SIGSTOP_def
      STATUS_SIGTSTP_def STATUS_EXIT0_def STATUS_SIGKILL_def)

lemma job_list_get_None_iff:
  "job_list_get jobs idx = None \<longleftrightarrow> idx < 0 \<or> int (length jobs) \<le> idx"
  by (auto simp: job_list_get_def)

lemma job_list_get_Some_iff:
  "job_list_get jobs idx = Some j \<longleftrightarrow> 0 \<le> idx \<and> idx < int (length jobs) \<and> j = jobs ! nat idx"
  by (auto simp: job_list_get_def)


section \<open>wait-for\<close>

text \<open>
  C6. When the index given to \<^verbatim>\<open>wait-for\<close> resolves to a record whose status is not
  Background, \<^verbatim>\<open>await_background_job\<close> fails on the path of the diagnostic "Job index
  is for stopped process not background process" (\<open>WrongJobType\<close>), the registry is the
  one it was given, and the only event added to the history is that diagnostic: no
  \<^verbatim>\<open>waitpid\<close> is made.
\<close>

theorem await_background_job_wrong_type:
  assumes "2 \<le> length tokens"
    and "sscanf_d e (tokens ! 1) = Some job_index"
    and "job_list_get jobs job_index = Some j"
    and "status j \<noteq> BACKGROUND"
  shows "await_background_job e tokens jobs tr =
           (Inl WrongJobType, jobs,
            tr @ [Stderr ''Job index is for stopped process not background process''])"
  using assms by (simp add: await_background_job_def)

theorem await_background_job_wrong_type_witness:
  "await_background_job (example_env (\<lambda>p. STATUS_EXIT0)) [''wait-for'', ''1'']
     [\<lparr>pid = 7, name = ''sleep'', status = BACKGROUND\<rparr>,
      \<lparr>pid = 8, name = ''vi'', status = STOPPED\<rparr>] [] =
   (Inl WrongJobType,
    [\<lparr>pid = 7, name = ''sleep'', status = BACKGROUND\<rparr>,
     \<lparr>pid = 8, name = ''vi'', status = STOPPED\<rparr>],
    [Stderr ''Job index is for stopped process not background process''])"
  using await_background_job_wrong_type
    [of "[''wait-for'', ''1'']" "example_env (\<lambda>p. STATUS_EXIT0)" 1
        "[\<lparr>pid = 7, name = ''sleep'', status = BACKGROUND\<rparr>,
          \<lparr>pid = 8, name = ''vi'', status = STOPPED\<rparr>]"
        "\<lparr>pid = 8, name = ''vi'', status = STOPPED\<rparr>" "[]"]
  by (simp add: example_env_def example_sscanf_def job_list_get_def BACKGROUND_def STOPPED_def)

text \<open>
  C7. When the index given to \<^verbatim>\<open>wait-for\<close> resolves to a Background record and the
  \<^verbatim>\<open>waitpid\<close> on its process succeeds: if the status word says the process exited or
  was killed by a signal, the registry afterwards is the old one without the record at
  that index; if it says the process stopped, the registry is the one it was given,
  so the record is still there with status Background.
\<close>

theorem await_background_job_removes_only_terminated:
  assumes "2 \<le> length tokens"
    and "sscanf_d e (tokens ! 1) = Some job_index"
    and "job_list_get jobs job_index = Some j"
    and "status j = BACKGROUND"
    and "0 \<le> ret e tr (WaitPid (pid j))"
  shows "(WIFEXITED (wstatus e tr (pid j)) \<or> WIFSIGNALED (wstatus e tr (pid j)) \<longrightarrow>
            await_background_job e tokens jobs tr =
              (Inr (), take (nat job_index) jobs @ drop (nat job_index + 1) jobs,
               tr @ [WaitPid (pid j)])) \<and>
         (WIFSTOPPED (wstatus e tr (pid j)) \<longrightarrow>
            await_background_job e tokens jobs tr = (Inr (), jobs, tr @ [WaitPid (pid j)]))"
proof -
  have eq: "await_background_job e tokens jobs tr =
      (Inr (),
       if WIFEXITED (wstatus e tr (pid j)) \<or> WIFSIGNALED (wstatus e tr (pid j))
       then take (nat job_index) jobs @ drop (nat job_index + 1) jobs
       else jobs,
       tr @ [WaitPid (pid j)])"
    using assms
    by (auto simp: await_background_job_def sys_def job_list_remove_def job_list_get_def
        split: if_splits)
  show ?thesis
    using WIFSTOPPED_not_terminated [of "wstatus e tr (pid j)"] by (auto simp: eq)
qed

theorem await_background_job_removes_only_terminated_witness:
  "await_background_job (example_env (\<lambda>p. if p = 7 then STATUS_SIGKILL else STATUS_SIGSTOP))
     [''wait-for'', ''0'']
     [\<lparr>pid = 7, name = ''sleep'', status = BACKGROUND\<rparr>,
      \<lparr>pid = 8, name = ''cat'', status = BACKGROUND\<rparr>] [] =
   (Inr (), [\<lparr>pid = 8, name = ''cat'', status = BACKGROUND\<rparr>], [WaitPid 7]) \<and>
   await_background_job (example_env (\<lambda>p. if p = 7 then STATUS_SIGKILL else STATUS_SIGSTOP))
     [''wait-for'', ''1'']
     [\<lparr>pid = 7, name = ''sleep'', status = BACKGROUND\<rparr>,
      \<lparr>pid = 8, name = ''cat'', status = BACKGROUND\<rparr>] [] =
   (Inr (),
    [\<lparr>pid = 7, name = ''sleep'', status = BACKGROUND\<rparr>,
     \<lparr>pid = 8, name = ''cat'', status = BACKGROUND\<rparr>], [WaitPid 8])"
  using await_background_job_removes_only_terminated
    [of "[''wait-for'', ''0'']"
        "example_env (\<lambda>p. if p = 7 then STATUS_SIGKILL else STATUS_SIGSTOP)" 0
        "[\<lparr>pid = 7, name = ''sleep'', status = BACKGROUND\<rparr>,
          \<lparr>pid = 8, name = ''cat'', status = BACKGROUND\<rparr>]"
        "\<lparr>pid = 7, name = ''sleep'', status = BACKGROUND\<rparr>" "[]"]
    await_background_job_removes_only_terminated
    [of "[''wait-for'', ''1'']"
        "example_env (\<lambda>p. if p = 7 then STATUS_SIGKILL else STATUS_SIGSTOP)" 1
        "[\<lparr>pid = 7, name = ''sleep'', status = BACKGROUND\<rparr>,
          \<lparr>pid = 8, name = ''cat'', status = BACKGROUND\<rparr>]"
        "\<lparr>pid = 8, name = ''cat'', status = BACKGROUND\<rparr>" "[]"]
  by (simp add: example_env_def example_sscanf_def example_ret_def job_list_get_def
      example_statuses)


section \<open>fg and bg\<close>

text \<open>
  C8. When the index given to \<^verbatim>\<open>fg\<close> or \<^verbatim>\<open>bg\<close> does not resolve to a record of the
  registry, \<^verbatim>\<open>resume_job\<close> fails on the path of the diagnostic "Job index out of
  bounds" (\<open>InvalidIndex\<close>) and the registry is the one it was given; no system call is
  made. The lookup resolves no record exactly when the index is negative or not below
  the number of records (\<open>job_list_get_None_iff\<close>).
\<close>

theorem resume_job_invalid_index:
  assumes "2 \<le> length tokens"
    and "sscanf_d e (tokens ! 1) = Some job_index"
    and "job_list_get jobs job_index = None"
  shows "resume_job e tokens jobs is_foreground tr =
           (Inl InvalidIndex, jobs, tr @ [Stderr ''Job index out of bounds''])"
  using assms by (simp add: resume_job_def)

theorem resume_job_invalid_index_witness:
  "resume_job (example_env (\<lambda>p. STATUS_EXIT0)) [''fg'', ''5'']
     [\<lparr>pid = 7, name = ''sleep'', status = STOPPED\<rparr>] True [] =
   (Inl InvalidIndex, [\<lparr>pid = 7, name = ''sleep'', status = STOPPED\<rparr>],
    [Stderr ''Job index out of bounds'']) \<and>
   resume_job (example_env (\<lambda>p. STATUS_EXIT0)) [''bg'', ''1'']
     [\<lparr>pid = 7, name = ''sleep'', status = STOPPED\<rparr>] False [] =
   (Inl InvalidIndex, [\<lparr>pid = 7, name = ''sleep'', status = STOPPED\<rparr>],
    [Stderr ''Job index out of bounds''])"
  using resume_job_invalid_index
    [of "[''fg'', ''5'']" "example_env (\<lambda>p. STATUS_EXIT0)" 5
        "[\<lparr>pid = 7, name = ''sleep'', status = STOPPED\<rparr>]" True "[]"]
    resume_job_invalid_index
    [of "[''bg'', ''1'']" "example_env (\<lambda>p. STATUS_EXIT0)" 1
        "[\<lparr>pid = 7, name = ''sleep'', status = STOPPED\<rparr>]" False "[]"]
  by (simp add: example_env_def example_sscanf_def job_list_get_def)


section \<open>wait-all\<close>

lemma waits_before_Cons:
  "waits_before (c # rest) (Suc i) =
     (if status c = BACKGROUND then [WaitPid (pid c)] else []) @ waits_before rest i"
  by (simp add: waits_before_def)

lemma waits_before_0: "waits_before jobs 0 = []"
  by (simp add: waits_before_def)

lemma first_pass_spec_Nil: "first_pass_spec e tr [] = []"
  by (simp add: first_pass_spec_def)

lemma first_pass_spec_Cons:
  "first_pass_spec e tr (c # rest) =
     (if status c = BACKGROUND \<and> WIFSTOPPED (wstatus e tr (pid c))
      then c\<lparr>status := STOPPED\<rparr> else c) #
     first_pass_spec e (tr @ (if status c = BACKGROUND then [WaitPid (pid c)] else [])) rest"
proof -
  have "[0 ..< length (c # rest)] = 0 # map Suc [0 ..< length rest]"
    by (simp add: upt_conv_Cons map_Suc_upt del: upt_Suc)
  then show ?thesis
    by (simp add: first_pass_spec_def reported_def waits_before_Cons waits_before_0 comp_def
        del: upt_Suc)
qed

lemma waits_succeed_Cons:
  "waits_succeed e tr (c # rest) \<longleftrightarrow>
     (status c \<noteq> BACKGROUND \<or> 0 \<le> ret e tr (WaitPid (pid c))) \<and>
     waits_succeed e (tr @ (if status c = BACKGROUND then [WaitPid (pid c)] else [])) rest"
proof -
  have "[0 ..< length (c # rest)] = 0 # map Suc [0 ..< length rest]"
    by (simp add: upt_conv_Cons map_Suc_upt del: upt_Suc)
  then show ?thesis
    by (simp add: waits_succeed_def waits_before_Cons waits_before_0 list.pred_map comp_def
        del: upt_Suc)
qed

text \<open>The loop of the first pass computes what the spec describes, when no wait fails.\<close>

lemma await_first_pass_spec:
  "waits_succeed e tr rest \<Longrightarrow>
   await_first_pass e visited rest tr =
     (Inr (), visited @ first_pass_spec e tr rest, tr @ waits_before rest (length rest))"
proof (induction rest arbitrary: visited tr)
  case Nil
  then show ?case by (simp add: first_pass_spec_Nil waits_before_def)
next
  case (Cons c rest)
  from Cons.prems have
    ok: "status c \<noteq> BACKGROUND \<or> 0 \<le> ret e tr (WaitPid (pid c))" and
    rest: "waits_succeed e (tr @ (if status c = BACKGROUND then [WaitPid (pid c)] else [])) rest"
    by (simp_all add: waits_succeed_Cons)
  show ?case
  proof (cases "status c = BACKGROUND")
    case True
    with ok rest Cons.IH show ?thesis
      by (simp add: sys_def first_pass_spec_Cons waits_before_Cons)
  next
    case False
    with rest Cons.IH show ?thesis
      by (simp add: first_pass_spec_Cons waits_before_Cons)
  qed
qed

text \<open>When a wait fails, the function returns \<^verbatim>\<open>-1\<close> from the first pass.\<close>

lemma await_first_pass_fail:
  "\<not> waits_succeed e tr rest \<Longrightarrow>
   fst (await_first_pass e visited rest tr) = Inl (SystemCallFailure ''waitpid'')"
proof (induction rest arbitrary: visited tr)
  case Nil
  then show ?case by (simp add: waits_succeed_def)
next
  case (Cons c rest)
  show ?case
  proof (cases "status c = BACKGROUND \<and> ret e tr (WaitPid (pid c)) < 0")
    case True
    then show ?thesis by (simp add: sys_def)
  next
    case False
    with Cons.prems have
      "\<not> waits_succeed e (tr @ (if status c = BACKGROUND then [WaitPid (pid c)] else [])) rest"
      by (auto simp: waits_succeed_Cons)
    with False Cons.IH show ?thesis
      by (auto simp: sys_def)
  qed
qed

lemma first_pass_spec_nth:
  "i < length jobs \<Longrightarrow>
   first_pass_spec e tr jobs ! i =
     (if status (jobs ! i) = BACKGROUND \<and> WIFSTOPPED (reported e tr jobs i)
      then (jobs ! i)\<lparr>status := STOPPED\<rparr> else jobs ! i)"
  by (simp add: first_pass_spec_def)

text \<open>
  What is left after the sweep: no record marked Background; every Background record
  reported as stopped, now with status Stopped; every record that was not Background,
  as it was.
\<close>

lemma wait_all_spec_no_background:
  "j \<in> set (wait_all_spec e tr jobs) \<Longrightarrow> status j \<noteq> BACKGROUND"
  by (simp add: wait_all_spec_def)

lemma wait_all_spec_stopped_stays:
  assumes "i < length jobs" and "status (jobs ! i) = BACKGROUND"
    and "WIFSTOPPED (reported e tr jobs i)"
  shows "(jobs ! i)\<lparr>status := STOPPED\<rparr> \<in> set (wait_all_spec e tr jobs)"
proof -
  have "first_pass_spec e tr jobs ! i \<in> set (first_pass_spec e tr jobs)"
    using assms(1) by (intro nth_mem) (simp add: first_pass_spec_def)
  with assms show ?thesis
    by (simp add: wait_all_spec_def first_pass_spec_nth STOPPED_def BACKGROUND_def)
qed

lemma wait_all_spec_other_stays:
  assumes "i < length jobs" and "status (jobs ! i) \<noteq> BACKGROUND"
  shows "jobs ! i \<in> set (wait_all_spec e tr jobs)"
proof -
  have "first_pass_spec e tr jobs ! i \<in> set (first_pass_spec e tr jobs)"
    using assms(1) by (intro nth_mem) (simp add: first_pass_spec_def)
  with assms show ?thesis
    by (simp add: wait_all_spec_def first_pass_spec_nth)
qed

text \<open>
  C5. When no wait fails, \<^verbatim>\<open>await_all_background_jobs\<close> is the two-pass sweep of the
  spec. Its first pass waits for the Background records, and only for them, in registry
  order, and leaves the registry of \<open>first_pass_spec\<close>: a Background record whose wait
  reported a stop has status Stopped, every other record is as before, so a terminated
  one is still marked Background. The function then returns 0 with the registry of
  \<open>wait_all_spec\<close>: the records of the first pass that are not marked Background, in
  their order.
\<close>

theorem await_all_background_jobs_sweep:
  assumes "waits_succeed e tr jobs"
  shows "await_first_pass e [] jobs tr =
           (Inr (), first_pass_spec e tr jobs, tr @ waits_before jobs (length jobs)) \<and>
         await_all_background_jobs e jobs tr =
           (Inr (), wait_all_spec e tr jobs, tr @ waits_before jobs (length jobs))"
  using await_first_pass_spec [OF assms, of "[]"]
  by (simp add: await_all_background_jobs_def job_list_remove_by_status_def wait_all_spec_def)

theorem await_all_background_jobs_sweep_witness:
  "waits_succeed (example_env (\<lambda>p. if p = 7 then STATUS_SIGKILL else STATUS_SIGSTOP)) []
     [\<lparr>pid = 7, name = ''sleep'', status = BACKGROUND\<rparr>,
      \<lparr>pid = 8, name = ''cat'', status = BACKGROUND\<rparr>,
      \<lparr>pid = 9, name = ''vi'', status = STOPPED\<rparr>] \<and>
   await_all_background_jobs (example_env (\<lambda>p. if p = 7 then STATUS_SIGKILL else STATUS_SIGSTOP))
     [\<lparr>pid = 7, name = ''sleep'', status = BACKGROUND\<rparr>,
      \<lparr>pid = 8, name = ''cat'', status = BACKGROUND\<rparr>,
      \<lparr>pid = 9, name = ''vi'', status = STOPPED\<rparr>] [] =
   (Inr (),
    [\<lparr>pid = 8, name = ''cat'', status = STOPPED\<rparr>,
     \<lparr>pid = 9, name = ''vi'', status = STOPPED\<rparr>],
    [WaitPid 7, WaitPid 8])"
proof -
  have ok: "waits_succeed (example_env (\<lambda>p. if p = 7 then STATUS_SIGKILL else STATUS_SIGSTOP)) []
     [\<lparr>pid = 7, name = ''sleep'', status = BACKGROUND\<rparr>,
      \<lparr>pid = 8, name = ''cat'', status = BACKGROUND\<rparr>,
      \<lparr>pid = 9, name = ''vi'', status = STOPPED\<rparr>]"
    by (simp add: waits_succeed_def example_env_def example_ret_def)
  show ?thesis
    using ok await_all_background_jobs_sweep [OF ok]
    by (simp add: wait_all_spec_def first_pass_spec_def reported_def waits_before_def
        example_env_def example_statuses BACKGROUND_def STOPPED_def)
qed


section \<open>The argument vector\<close>

lemma strvec_find_from_range:
  "strvec_find_from xs s i = -1 \<or> (i \<le> strvec_find_from xs s i \<and> strvec_find_from xs s i < i + int (length xs))"
  if "0 \<le> i"
  using that by (induction xs s i rule: strvec_find_from.induct) auto

lemma strvec_find_from_absent:
  "0 \<le> i \<Longrightarrow> strvec_find_from xs s i = -1 \<longleftrightarrow> s \<notin> set xs"
proof (induction xs s i rule: strvec_find_from.induct)
  case (1 s i)
  then show ?case by simp
next
  case (2 x xs s i)
  then show ?case
    using strvec_find_from_range [of "i + 1" xs s] by auto
qed

lemma strvec_find_from_first:
  "0 \<le> i \<Longrightarrow> s \<in> set xs \<Longrightarrow>
   xs ! nat (strvec_find_from xs s i - i) = s \<and>
   (\<forall>k < nat (strvec_find_from xs s i - i). xs ! k \<noteq> s)"
proof (induction xs s i rule: strvec_find_from.induct)
  case (1 s i)
  then show ?case by simp
next
  case (2 x xs s i)
  show ?case
  proof (cases "x = s")
    case True
    then show ?thesis by simp
  next
    case False
    with 2 have in_xs: "s \<in> set xs" by simp
    from 2 False in_xs have IH: "xs ! nat (strvec_find_from xs s (i + 1) - (i + 1)) = s \<and>
      (\<forall>k < nat (strvec_find_from xs s (i + 1) - (i + 1)). xs ! k \<noteq> s)"
      by simp
    have rng: "i + 1 \<le> strvec_find_from xs s (i + 1)"
      using strvec_find_from_range [of "i + 1" xs s] strvec_find_from_absent [of "i + 1" xs s]
        in_xs 2(2) by auto
    then have eq: "nat (strvec_find_from xs s (i + 1) - i) =
        Suc (nat (strvec_find_from xs s (i + 1) - (i + 1)))"
      by simp
    show ?thesis
      using False IH by (auto simp: eq nth_Cons split: nat.splits)
  qed
qed

lemma strvec_find_absent: "strvec_find tokens s = -1 \<longleftrightarrow> s \<notin> set tokens"
  by (simp add: strvec_find_def strvec_find_from_absent)

lemma strvec_find_first:
  assumes "s \<in> set tokens"
  shows "0 \<le> strvec_find tokens s" and "strvec_find tokens s < int (length tokens)"
    and "tokens ! nat (strvec_find tokens s) = s"
    and "\<forall>k < nat (strvec_find tokens s). tokens ! k \<noteq> s"
proof -
  from assms have ne: "strvec_find_from tokens s 0 \<noteq> -1"
    by (simp add: strvec_find_from_absent)
  with strvec_find_from_range [of 0 tokens s]
  show "0 \<le> strvec_find tokens s" and "strvec_find tokens s < int (length tokens)"
    by (simp_all add: strvec_find_def)
  from strvec_find_from_first [of 0 s tokens] assms
  show "tokens ! nat (strvec_find tokens s) = s"
    and "\<forall>k < nat (strvec_find tokens s). tokens ! k \<noteq> s"
    by (simp_all add: strvec_find_def)
qed









lemma input_redirection_events:
  "\<exists>evs. snd (input_redirection e tokens i tr) = tr @ evs \<and>
         (\<forall>f a. Execvp f a \<notin> set evs) \<and> (\<forall>p fl. Open p fl \<in> set evs \<longrightarrow> fl = RDONLY)"
  by (auto simp: input_redirection_def sys_def Let_def)

lemma output_dup_events:
  "\<exists>evs. snd (output_dup e (fd, tr)) = tr @ evs \<and>
         (\<forall>f a. Execvp f a \<notin> set evs) \<and> (\<forall>p fl. Open p fl \<notin> set evs)"
  by (auto simp: output_dup_def sys_def Let_def)

lemma output_redirection_truncate:
  assumes "out \<noteq> -1"
  shows "\<exists>evs. snd (output_redirection e tokens out app tr) = tr @ evs \<and>
      (\<forall>f a. Execvp f a \<notin> set evs) \<and>
      (\<forall>p fl. Open p fl \<in> set evs \<longrightarrow> fl = WRONLY_CREAT_TRUNC \<and> p = tokens ! nat (out + 1)) \<and>
      (fst (output_redirection e tokens out app tr) \<longrightarrow>
         Open (tokens ! nat (out + 1)) WRONLY_CREAT_TRUNC \<in> set evs)"
proof (cases "out + 1 \<ge> int (length tokens)")
  case True
  with assms show ?thesis by (simp add: output_redirection_def)
next
  case False
  obtain evs where evs: "snd (output_dup e (ret e tr (Open (tokens ! nat (out + 1)) WRONLY_CREAT_TRUNC),
      tr @ [Open (tokens ! nat (out + 1)) WRONLY_CREAT_TRUNC])) =
      (tr @ [Open (tokens ! nat (out + 1)) WRONLY_CREAT_TRUNC]) @ evs"
    and no: "\<forall>f a. Execvp f a \<notin> set evs" "\<forall>p fl. Open p fl \<notin> set evs"
    using output_dup_events by blast
  from assms False evs no show ?thesis
    by (intro exI [of _ "Open (tokens ! nat (out + 1)) WRONLY_CREAT_TRUNC # evs"])
      (auto simp: output_redirection_def sys_def)
qed

lemma output_redirection_events:
  "\<exists>evs. snd (output_redirection e tokens out app tr) = tr @ evs \<and>
      (\<forall>f a. Execvp f a \<notin> set evs)"
proof -
  have dup: "\<exists>evs. snd (output_dup e (sys e tr ev)) = tr @ evs \<and> (\<forall>f a. Execvp f a \<notin> set evs)"
    if "\<forall>f a. ev \<noteq> Execvp f a" for ev
  proof -
    obtain evs where "snd (output_dup e (ret e tr ev, tr @ [ev])) = (tr @ [ev]) @ evs"
      and "\<forall>f a. Execvp f a \<notin> set evs"
      using output_dup_events by blast
    with that show ?thesis
      by (intro exI [of _ "ev # evs"]) (auto simp: sys_def)
  qed
  show ?thesis
    unfolding output_redirection_def
    using dup [of "Open (tokens ! nat (out + 1)) WRONLY_CREAT_TRUNC"]
      dup [of "Open (tokens ! nat (app + 1)) WRONLY_CREAT_APPEND"]
    by auto
qed

lemma exec_command_events:
  "\<exists>evs. snd (exec_command e args tr) = tr @ evs \<and>
      (\<forall>p fl. Open p fl \<notin> set evs) \<and>
      (\<forall>f a. Execvp f a \<in> set evs \<longrightarrow> f = args ! 0 \<and> a = args) \<and>
      (fst (exec_command e args tr) \<noteq> Returned (-1) \<longrightarrow> Execvp (args ! 0) args \<in> set evs)"
  by (auto simp: exec_command_def sys_def Let_def)


lemma run_command_stages:
  assumes "tokens \<noteq> []"
  obtains evs1 evs2 evs3 where
    "snd (input_redirection e tokens (strvec_find tokens ''<'') tr) = tr @ evs1"
    "snd (output_redirection e tokens (strvec_find tokens ''>'') (strvec_find tokens ''>>'')
            (tr @ evs1)) = tr @ evs1 @ evs2"
    "snd (exec_command e (argv e tokens) (tr @ evs1 @ evs2)) = tr @ evs1 @ evs2 @ evs3"
    "run_command e tokens tr =
       (if \<not> fst (input_redirection e tokens (strvec_find tokens ''<'') tr)
        then (Returned (-1), tr @ evs1)
        else if \<not> fst (output_redirection e tokens (strvec_find tokens ''>'')
                         (strvec_find tokens ''>>'') (tr @ evs1))
        then (Returned (-1), tr @ evs1 @ evs2)
        else (fst (exec_command e (argv e tokens) (tr @ evs1 @ evs2)), tr @ evs1 @ evs2 @ evs3))"
    "\<forall>f a. Execvp f a \<notin> set evs1" "\<forall>p fl. Open p fl \<in> set evs1 \<longrightarrow> fl = RDONLY"
    "\<forall>f a. Execvp f a \<notin> set evs2"
    "\<forall>p fl. Open p fl \<notin> set evs3"
    "\<forall>f a. Execvp f a \<in> set evs3 \<longrightarrow> f = argv e tokens ! 0 \<and> a = argv e tokens"
    "fst (exec_command e (argv e tokens) (tr @ evs1 @ evs2)) \<noteq> Returned (-1) \<longrightarrow>
       Execvp (argv e tokens ! 0) (argv e tokens) \<in> set evs3"
    "strvec_find tokens ''>'' \<noteq> -1 \<longrightarrow>
       (\<forall>p fl. Open p fl \<in> set evs2 \<longrightarrow>
          fl = WRONLY_CREAT_TRUNC \<and> p = tokens ! nat (strvec_find tokens ''>'' + 1)) \<and>
       (fst (output_redirection e tokens (strvec_find tokens ''>'') (strvec_find tokens ''>>'')
            (tr @ evs1)) \<longrightarrow>
          Open (tokens ! nat (strvec_find tokens ''>'' + 1)) WRONLY_CREAT_TRUNC \<in> set evs2)"
proof -
  obtain evs1 where 1: "snd (input_redirection e tokens (strvec_find tokens ''<'') tr) = tr @ evs1"
    "\<forall>f a. Execvp f a \<notin> set evs1" "\<forall>p fl. Open p fl \<in> set evs1 \<longrightarrow> fl = RDONLY"
    using input_redirection_events by blast
  have "\<exists>evs2. snd (output_redirection e tokens (strvec_find tokens ''>'') (strvec_find tokens ''>>'')
            (tr @ evs1)) = (tr @ evs1) @ evs2 \<and> (\<forall>f a. Execvp f a \<notin> set evs2) \<and>
     (strvec_find tokens ''>'' \<noteq> -1 \<longrightarrow>
       (\<forall>p fl. Open p fl \<in> set evs2 \<longrightarrow>
          fl = WRONLY_CREAT_TRUNC \<and> p = tokens ! nat (strvec_find tokens ''>'' + 1)) \<and>
       (fst (output_redirection e tokens (strvec_find tokens ''>'') (strvec_find tokens ''>>'')
            (tr @ evs1)) \<longrightarrow>
          Open (tokens ! nat (strvec_find tokens ''>'' + 1)) WRONLY_CREAT_TRUNC \<in> set evs2))"
  proof (cases "strvec_find tokens ''>'' = -1")
    case True
    with output_redirection_events [of e tokens "strvec_find tokens ''>''"
        "strvec_find tokens ''>>''" "tr @ evs1"]
    show ?thesis by auto
  next
    case False
    from output_redirection_truncate [OF False, of e tokens "strvec_find tokens ''>>''" "tr @ evs1"]
      False
    show ?thesis by auto
  qed
  then obtain evs2 where 2:
    "snd (output_redirection e tokens (strvec_find tokens ''>'') (strvec_find tokens ''>>'')
            (tr @ evs1)) = tr @ evs1 @ evs2"
    "\<forall>f a. Execvp f a \<notin> set evs2"
    "strvec_find tokens ''>'' \<noteq> -1 \<longrightarrow>
       (\<forall>p fl. Open p fl \<in> set evs2 \<longrightarrow>
          fl = WRONLY_CREAT_TRUNC \<and> p = tokens ! nat (strvec_find tokens ''>'' + 1)) \<and>
       (fst (output_redirection e tokens (strvec_find tokens ''>'') (strvec_find tokens ''>>'')
            (tr @ evs1)) \<longrightarrow>
          Open (tokens ! nat (strvec_find tokens ''>'' + 1)) WRONLY_CREAT_TRUNC \<in> set evs2)"
    by auto
  obtain evs3 where 3:
    "snd (exec_command e (argv e tokens) (tr @ evs1 @ evs2)) = tr @ evs1 @ evs2 @ evs3"
    "\<forall>p fl. Open p fl \<notin> set evs3"
    "\<forall>f a. Execvp f a \<in> set evs3 \<longrightarrow> f = argv e tokens ! 0 \<and> a = argv e tokens"
    "fst (exec_command e (argv e tokens) (tr @ evs1 @ evs2)) \<noteq> Returned (-1) \<longrightarrow>
       Execvp (argv e tokens ! 0) (argv e tokens) \<in> set evs3"
    using exec_command_events [of e "argv e tokens" "tr @ evs1 @ evs2"] by auto
  have run: "run_command e tokens tr =
       (if \<not> fst (input_redirection e tokens (strvec_find tokens ''<'') tr)
        then (Returned (-1), tr @ evs1)
        else if \<not> fst (output_redirection e tokens (strvec_find tokens ''>'')
                         (strvec_find tokens ''>>'') (tr @ evs1))
        then (Returned (-1), tr @ evs1 @ evs2)
        else (fst (exec_command e (argv e tokens) (tr @ evs1 @ evs2)), tr @ evs1 @ evs2 @ evs3))"
    using assms 1(1) 2(1) 3(1)
    by (auto simp: run_command_def Let_def prod_eq_iff split: prod.splits)
  show ?thesis
    by (rule that [OF 1(1) 2(1) 3(1) run 1(2) 1(3) 2(2) 3(2) 3(3) 3(4) 2(3)])
qed



text \<open>
  C4, as amended. On a command line that has both \<^verbatim>\<open>>\<close> and \<^verbatim>\<open>>>\<close>, wherever they
  stand, \<^verbatim>\<open>run_command\<close> never opens a file in append mode; the only file it opens for
  output is the token after the first \<^verbatim>\<open>>\<close>, write-only, created if absent,
  truncated; and it opens that file whenever it gets as far as \<^verbatim>\<open>execvp\<close>.
\<close>

theorem run_command_output_truncate:
  assumes "''>'' \<in> set tokens" and "''>>'' \<in> set tokens"
  shows "(\<forall>p. Open p WRONLY_CREAT_APPEND \<notin> set (added tr (snd (run_command e tokens tr)))) \<and>
         (\<forall>p. Open p WRONLY_CREAT_TRUNC \<in> set (added tr (snd (run_command e tokens tr))) \<longrightarrow>
              p = tokens ! nat (strvec_find tokens ''>'' + 1)) \<and>
         (fst (run_command e tokens tr) \<noteq> Returned (-1) \<longrightarrow>
            Open (tokens ! nat (strvec_find tokens ''>'' + 1)) WRONLY_CREAT_TRUNC
              \<in> set (added tr (snd (run_command e tokens tr))))"
proof -
  from assms have ne: "tokens \<noteq> []" by auto
  from assms have out: "strvec_find tokens ''>'' \<noteq> -1"
    by (simp add: strvec_find_absent)
  show ?thesis
  proof (rule run_command_stages [OF ne, of e tr])
    fix evs1 evs2 evs3
    assume run: "run_command e tokens tr =
       (if \<not> fst (input_redirection e tokens (strvec_find tokens ''<'') tr)
        then (Returned (-1), tr @ evs1)
        else if \<not> fst (output_redirection e tokens (strvec_find tokens ''>'')
                         (strvec_find tokens ''>>'') (tr @ evs1))
        then (Returned (-1), tr @ evs1 @ evs2)
        else (fst (exec_command e (argv e tokens) (tr @ evs1 @ evs2)), tr @ evs1 @ evs2 @ evs3))"
      and 1: "\<forall>p fl. Open p fl \<in> set evs1 \<longrightarrow> fl = RDONLY"
      and 3: "\<forall>p fl. Open p fl \<notin> set evs3"
      and 2: "strvec_find tokens ''>'' \<noteq> -1 \<longrightarrow>
       (\<forall>p fl. Open p fl \<in> set evs2 \<longrightarrow>
          fl = WRONLY_CREAT_TRUNC \<and> p = tokens ! nat (strvec_find tokens ''>'' + 1)) \<and>
       (fst (output_redirection e tokens (strvec_find tokens ''>'') (strvec_find tokens ''>>'')
            (tr @ evs1)) \<longrightarrow>
          Open (tokens ! nat (strvec_find tokens ''>'' + 1)) WRONLY_CREAT_TRUNC \<in> set evs2)"
    let ?file = "tokens ! nat (strvec_find tokens ''>'' + 1)"
    let ?ok2 = "fst (output_redirection e tokens (strvec_find tokens ''>'')
        (strvec_find tokens ''>>'') (tr @ evs1))"
    from 1 have a1: "Open p WRONLY_CREAT_APPEND \<notin> set evs1"
      "Open p WRONLY_CREAT_TRUNC \<notin> set evs1" for p
      by auto
    from 2 out have a2: "Open p WRONLY_CREAT_APPEND \<notin> set evs2" for p
      by auto
    from 2 out have b2: "Open p WRONLY_CREAT_TRUNC \<in> set evs2 \<Longrightarrow> p = ?file" for p
      by blast
    from 2 out have c2: "?ok2 \<Longrightarrow> Open ?file WRONLY_CREAT_TRUNC \<in> set evs2"
      by blast
    from 3 have a3: "Open p fl \<notin> set evs3" for p fl
      by simp
    have shape: "added tr (snd (run_command e tokens tr)) = evs1 \<and>
          fst (run_command e tokens tr) = Returned (-1) \<or>
        added tr (snd (run_command e tokens tr)) = evs1 @ evs2 \<and>
          fst (run_command e tokens tr) = Returned (-1) \<or>
        added tr (snd (run_command e tokens tr)) = evs1 @ evs2 @ evs3 \<and> ?ok2"
      unfolding run added_def by simp
    then consider
      (stage1) "added tr (snd (run_command e tokens tr)) = evs1"
        "fst (run_command e tokens tr) = Returned (-1)"
    | (stage2) "added tr (snd (run_command e tokens tr)) = evs1 @ evs2"
        "fst (run_command e tokens tr) = Returned (-1)"
    | (stage3) "added tr (snd (run_command e tokens tr)) = evs1 @ evs2 @ evs3" "?ok2"
      by blast
    then show ?thesis
    proof cases
      case stage1
      have "Open p fl \<in> set evs1 \<Longrightarrow> fl = RDONLY" for p fl
        using 1 by blast
      then have "Open p WRONLY_CREAT_TRUNC \<notin> set evs1" for p
        by fastforce
      then show ?thesis
        unfolding stage1 using a1(1) by blast
    next
      case stage2
      have A: "Open p WRONLY_CREAT_APPEND \<notin> set (evs1 @ evs2)" for p
        by (simp add: a1 a2)
      have B: "Open p WRONLY_CREAT_TRUNC \<in> set (evs1 @ evs2) \<Longrightarrow> p = ?file" for p
        using b2 [of p] by (simp add: a1)
      show ?thesis
        unfolding stage2 using A B by blast
    next
      case stage3
      have A: "Open p WRONLY_CREAT_APPEND \<notin> set (evs1 @ evs2 @ evs3)" for p
        by (simp add: a1 a2 a3)
      have B: "Open p WRONLY_CREAT_TRUNC \<in> set (evs1 @ evs2 @ evs3) \<Longrightarrow> p = ?file" for p
        using b2 [of p] by (simp add: a1 a3)
      have C: "Open ?file WRONLY_CREAT_TRUNC \<in> set (evs1 @ evs2 @ evs3)"
        using c2 [OF stage3(2)] by simp
      show ?thesis
        unfolding stage3(1) using A B C by blast
    qed
  qed
qed





lemmas run_command_defs =
  run_command_def input_redirection_def output_redirection_def output_dup_def exec_command_def
  sys_def strvec_find_def STDIN_FILENO_def STDOUT_FILENO_def









lemma example_argv_both:
  "argv (example_env (\<lambda>p. STATUS_EXIT0)) [''ls'', ''>>'', ''a'', ''>'', ''b''] =
     [Some ''ls'', None, Some ''junk'', Some ''junk'', Some ''junk'', Some ''junk'']"
  by (simp add: argv_def strvec_find_def skipped_def example_env_def upt_conv_Cons)

lemma example_run_both:
  "run_command (example_env (\<lambda>p. STATUS_EXIT0)) [''ls'', ''>>'', ''a'', ''>'', ''b''] [] =
     (Replaced,
      [Open ''b'' WRONLY_CREAT_TRUNC, Dup2 3 1, Close 3, Sigfillset,
       SigactionDefault SIGTTIN, SigactionDefault SIGTTOU, GetPid, SetPgid 100 100,
       Execvp (Some ''ls'')
         [Some ''ls'', None, Some ''junk'', Some ''junk'', Some ''junk'', Some ''junk'']])"
  by (simp add: run_command_defs example_argv_both) (simp add: example_env_def example_ret_def)

text \<open>
  C4 as stated fails: in \<^verbatim>\<open>ls >> a > b\<close> the append operator is the first of the two
  in the token list (position 1, before position 3), and the only file opened is
  \<^verbatim>\<open>b\<close>, in truncate mode.
\<close>

theorem output_mode_counterexample:
  "strvec_find [''ls'', ''>>'', ''a'', ''>'', ''b''] ''>>'' = 1 \<and>
   strvec_find [''ls'', ''>>'', ''a'', ''>'', ''b''] ''>'' = 3 \<and>
   run_command (example_env (\<lambda>p. STATUS_EXIT0)) [''ls'', ''>>'', ''a'', ''>'', ''b''] [] =
     (Replaced,
      [Open ''b'' WRONLY_CREAT_TRUNC, Dup2 3 1, Close 3, Sigfillset,
       SigactionDefault SIGTTIN, SigactionDefault SIGTTOU, GetPid, SetPgid 100 100,
       Execvp (Some ''ls'')
         [Some ''ls'', None, Some ''junk'', Some ''junk'', Some ''junk'', Some ''junk'']])"
  by (simp add: example_run_both) (simp add: strvec_find_def)

theorem run_command_output_truncate_witness:
  "''>'' \<in> set [''ls'', ''>>'', ''a'', ''>'', ''b''] \<and>
   ''>>'' \<in> set [''ls'', ''>>'', ''a'', ''>'', ''b''] \<and>
   fst (run_command (example_env (\<lambda>p. STATUS_EXIT0)) [''ls'', ''>>'', ''a'', ''>'', ''b''] [])
     \<noteq> Returned (-1) \<and>
   Open ''b'' WRONLY_CREAT_TRUNC
     \<in> set (added [] (snd (run_command (example_env (\<lambda>p. STATUS_EXIT0))
                             [''ls'', ''>>'', ''a'', ''>'', ''b''] []))) \<and>
   Open ''a'' WRONLY_CREAT_APPEND
     \<notin> set (added [] (snd (run_command (example_env (\<lambda>p. STATUS_EXIT0))
                             [''ls'', ''>>'', ''a'', ''>'', ''b''] [])))"
  using run_command_output_truncate
    [of "[''ls'', ''>>'', ''a'', ''>'', ''b'']" "[]" "example_env (\<lambda>p. STATUS_EXIT0)"]
  by (simp add: example_run_both added_def)


section \<open>Foreground jobs and the terminal\<close>

lemmas example_defs = example_env_def example_ret_def example_sscanf_def failing_env_def

text \<open>
  The events of \<^verbatim>\<open>fg\<close> on a record that resolves, in every run: the terminal goes to
  the job before the continue signal is sent, and it goes back to the shell's group
  exactly in the runs in which \<^verbatim>\<open>waitpid\<close> returned a process.
\<close>

lemma resume_job_foreground_events:
  assumes "2 \<le> length tokens" and "sscanf_d e (tokens ! 1) = Some job_index"
    and "job_list_get jobs job_index = Some j"
  shows "added tr (snd (snd (resume_job e tokens jobs True tr))) \<in>
     {[GetPgid 0, TcSetPgrp (pid j), Perror ''tcsetpgrp''],
      [GetPgid 0, TcSetPgrp (pid j), Kill (- pid j) SIGCONT, Perror ''kill''],
      [GetPgid 0, TcSetPgrp (pid j), Kill (- pid j) SIGCONT, WaitPid (pid j), Perror ''waitpid''],
      [GetPgid 0, TcSetPgrp (pid j), Kill (- pid j) SIGCONT, WaitPid (pid j),
       TcSetPgrp (ret e tr (GetPgid 0)), Perror ''tcsetpgrp''],
      [GetPgid 0, TcSetPgrp (pid j), Kill (- pid j) SIGCONT, WaitPid (pid j),
       TcSetPgrp (ret e tr (GetPgid 0))]}"
  using assms by (simp add: resume_job_def sys_def Let_def added_def)

lemma resume_job_background_events:
  assumes "2 \<le> length tokens" and "sscanf_d e (tokens ! 1) = Some job_index"
    and "job_list_get jobs job_index = Some j"
  shows "added tr (snd (snd (resume_job e tokens jobs False tr))) \<in>
     {[GetPgid 0, Kill (- pid j) SIGCONT, Perror ''kill''],
      [GetPgid 0, Kill (- pid j) SIGCONT]}"
  using assms by (simp add: resume_job_def sys_def Let_def added_def)

lemma resume_job_wait_fails:
  assumes "2 \<le> length tokens" and "sscanf_d e (tokens ! 1) = Some job_index"
    and "job_list_get jobs job_index = Some j"
    and "ret e (tr @ [GetPgid 0]) (TcSetPgrp (pid j)) \<noteq> -1"
    and "ret e (tr @ [GetPgid 0, TcSetPgrp (pid j)]) (Kill (- pid j) SIGCONT) \<noteq> -1"
    and "ret e (tr @ [GetPgid 0, TcSetPgrp (pid j), Kill (- pid j) SIGCONT]) (WaitPid (pid j)) < 0"
  shows "resume_job e tokens jobs True tr =
     (Inl (SystemCallFailure ''waitpid''), jobs,
      tr @ [GetPgid 0, TcSetPgrp (pid j), Kill (- pid j) SIGCONT, WaitPid (pid j), Perror ''waitpid''])"
  using assms by (simp add: resume_job_def sys_def Let_def)

text \<open>
  C3. The spec has the terminal go to the job before any continue signal and back to
  the shell's process group after the wait on every exit path, also when the wait fails.
  The first half holds in every run (\<open>resume_job_foreground_events\<close>). The second does
  not: at \<^verbatim>\<open>fg 0\<close> on a stopped job 7, with a \<^verbatim>\<open>waitpid\<close> that fails,
  \<^verbatim>\<open>resume_job\<close> gives the terminal to group 7, sends the continue signal, waits,
  reports the failure and returns: there is no second \<^verbatim>\<open>tcsetpgrp\<close>, and the shell
  goes on to print its prompt. A foreground launch whose \<^verbatim>\<open>waitpid\<close> fails ends
  \<^verbatim>\<open>main\<close> in the same state.
\<close>

theorem foreground_wait_failure_leaves_terminal:
  "main_step (failing_env (WaitPid 7) (\<lambda>p. STATUS_EXIT0)) [''fg'', ''0'']
     [\<lparr>pid = 7, name = ''vi'', status = STOPPED\<rparr>] [] =
   (Continue [\<lparr>pid = 7, name = ''vi'', status = STOPPED\<rparr>],
    [GetPgid 0, TcSetPgrp 7, Kill (- 7) SIGCONT, WaitPid 7, Perror ''waitpid'',
     Stdout ''Failed to resume job in foreground'', Stdout PROMPT]) \<and>
   launch (failing_env (WaitPid 101) (\<lambda>p. STATUS_EXIT0)) [''vi''] [] [] =
   (Return (- 1),
    [Fork, GetPid, SetPgid 101 101, TcSetPgrp 101, WaitPid 101, Perror ''waitpid() failed''])"
  by (simp add: main_step_def dispatch_def resume_job_def launch_def sys_def job_list_get_def
      example_defs)


section \<open>Launching a command\<close>

text \<open>
  A foreground launch in the parent, when every call succeeds: the record added for a
  stopped child has the status word of \<^verbatim>\<open>waitpid\<close> in its status field; a child that
  was not stopped leaves the registry as it was. The terminal goes to the child before
  the wait and back to the shell after it.
\<close>

lemma launch_foreground:
  assumes "tokens \<noteq> []" and "tokens ! (length tokens - 1) \<noteq> ''&''"
    and "0 < ret e tr Fork"
    and "ret e (tr @ [Fork, GetPid]) (SetPgid (ret e tr Fork) (ret e tr Fork)) \<noteq> -1"
    and "ret e (tr @ [Fork, GetPid, SetPgid (ret e tr Fork) (ret e tr Fork)])
           (TcSetPgrp (ret e tr Fork)) \<noteq> -1"
    and "0 \<le> ret e (tr @ [Fork, GetPid, SetPgid (ret e tr Fork) (ret e tr Fork),
                            TcSetPgrp (ret e tr Fork)]) (WaitPid (ret e tr Fork))"
    and "ret e (tr @ [Fork, GetPid, SetPgid (ret e tr Fork) (ret e tr Fork),
                      TcSetPgrp (ret e tr Fork), WaitPid (ret e tr Fork)])
           (TcSetPgrp (ret e (tr @ [Fork]) GetPid)) \<noteq> -1"
  shows "launch e tokens jobs tr =
     (Continue
        (if WIFSTOPPED (wstatus e (tr @ [Fork, GetPid, SetPgid (ret e tr Fork) (ret e tr Fork),
                                         TcSetPgrp (ret e tr Fork)]) (ret e tr Fork))
         then jobs @ [\<lparr>pid = ret e tr Fork, name = tokens ! 0,
                         status = wstatus e (tr @ [Fork, GetPid,
                                    SetPgid (ret e tr Fork) (ret e tr Fork),
                                    TcSetPgrp (ret e tr Fork)]) (ret e tr Fork)\<rparr>]
         else jobs),
      tr @ [Fork, GetPid, SetPgid (ret e tr Fork) (ret e tr Fork), TcSetPgrp (ret e tr Fork),
            WaitPid (ret e tr Fork), TcSetPgrp (ret e (tr @ [Fork]) GetPid)])"
  using assms by (simp add: launch_def sys_def Let_def job_list_add_def)

text \<open>No status word of a stopped process is the constant \<^verbatim>\<open>STOPPED\<close>, and the words of
  two different stop signals differ, so no value of the constant would fit both.\<close>

lemma stop_statuses_differ: "STATUS_SIGSTOP \<noteq> STATUS_SIGTSTP"
  by (simp add: STATUS_SIGSTOP_def STATUS_SIGTSTP_def)

lemma launch_example:
  "launch (example_env (\<lambda>p. STATUS_SIGTSTP)) [''sleep'', ''5''] [] [] =
     (Continue [\<lparr>pid = 101, name = ''sleep'', status = STATUS_SIGTSTP\<rparr>],
      [Fork, GetPid, SetPgid 101 101, TcSetPgrp 101, WaitPid 101, TcSetPgrp 100])"
  by (simp add: launch_def sys_def example_defs example_statuses job_list_add_def)

text \<open>
  C1. The spec has a foreground launch whose child was stopped add a record whose
  status field is Stopped, and a launch whose child terminated add none. The second
  half holds (\<open>launch_foreground\<close>). The first does not: at the foreground launch of
  \<^verbatim>\<open>sleep 5\<close> whose child 101 is stopped by \<^verbatim>\<open>SIGTSTP\<close>, the record that \<^verbatim>\<open>main\<close>
  adds has the status word 5247 of \<^verbatim>\<open>waitpid\<close> in its status field, not the constant
  \<^verbatim>\<open>STOPPED\<close>: \<^verbatim>\<open>main\<close> passes \<^verbatim>\<open>status\<close> to \<^verbatim>\<open>job_list_add\<close>.
\<close>

theorem launch_stopped_stores_wait_status:
  "launch (example_env (\<lambda>p. STATUS_SIGTSTP)) [''sleep'', ''5''] [] [] =
     (Continue [\<lparr>pid = 101, name = ''sleep'', status = STATUS_SIGTSTP\<rparr>],
      [Fork, GetPid, SetPgid 101 101, TcSetPgrp 101, WaitPid 101, TcSetPgrp 100]) \<and>
   WIFSTOPPED STATUS_SIGTSTP \<and> STATUS_SIGTSTP = 5247 \<and> STOPPED = 1 \<and> STATUS_SIGTSTP \<noteq> STOPPED"
  by (simp add: launch_example example_statuses) (simp add: STATUS_SIGTSTP_def STOPPED_def)

text \<open>
  The exact outcome of a round for each failing call. In \<^verbatim>\<open>wait-all\<close> the registry is
  \<open>pre @ c # post\<close>, where the wait for \<open>c\<close> is the first that fails.
\<close>

lemma await_first_pass_fails_at:
  assumes "waits_succeed e tr pre" and "status c = BACKGROUND"
    and "ret e (tr @ waits_before pre (length pre)) (WaitPid (pid c)) < 0"
  shows "await_first_pass e visited (pre @ c # post) tr =
     (Inl (SystemCallFailure ''waitpid''), visited @ first_pass_spec e tr pre @ c # post,
      tr @ waits_before pre (length pre) @ [WaitPid (pid c), Perror ''waitpid''])"
  using assms
proof (induction pre arbitrary: visited tr)
  case Nil
  then show ?case
    by (simp add: sys_def first_pass_spec_Nil waits_before_def)
next
  case (Cons a pre)
  let ?tr = "tr @ (if status a = BACKGROUND then [WaitPid (pid a)] else [])"
  from Cons.prems(1) have
    ok: "status a \<noteq> BACKGROUND \<or> 0 \<le> ret e tr (WaitPid (pid a))" and
    rest: "waits_succeed e ?tr pre"
    by (simp_all add: waits_succeed_Cons)
  from Cons.prems(3) have fail: "ret e (?tr @ waits_before pre (length pre)) (WaitPid (pid c)) < 0"
    by (simp add: waits_before_Cons)
  note IH = Cons.IH [OF rest Cons.prems(2) fail]
  show ?case
  proof (cases "status a = BACKGROUND")
    case True
    with ok IH show ?thesis
      by (simp add: sys_def first_pass_spec_Cons waits_before_Cons)
  next
    case False
    with IH show ?thesis
      by (simp add: first_pass_spec_Cons waits_before_Cons)
  qed
qed

lemma main_step_fg_transfer_fails:
  assumes "tokens \<noteq> []" and "tokens ! 0 = ''fg''" and "2 \<le> length tokens"
    and "sscanf_d e (tokens ! 1) = Some job_index"
    and "job_list_get jobs job_index = Some j"
    and "ret e (tr @ [GetPgid 0]) (TcSetPgrp (pid j)) = -1"
  shows "main_step e tokens jobs tr =
     (Continue jobs,
      tr @ [GetPgid 0, TcSetPgrp (pid j), Perror ''tcsetpgrp'',
            Stdout ''Failed to resume job in foreground'', Stdout PROMPT])"
  using assms by (simp add: main_step_def dispatch_def resume_job_def sys_def)

lemma main_step_bg_kill_fails:
  assumes "tokens \<noteq> []" and "tokens ! 0 = ''bg''" and "2 \<le> length tokens"
    and "sscanf_d e (tokens ! 1) = Some job_index"
    and "job_list_get jobs job_index = Some j"
    and "ret e (tr @ [GetPgid 0]) (Kill (- pid j) SIGCONT) = -1"
  shows "main_step e tokens jobs tr =
     (Continue jobs,
      tr @ [GetPgid 0, Kill (- pid j) SIGCONT, Perror ''kill'',
            Stdout ''Failed to resume job in background'', Stdout PROMPT])"
  using assms by (simp add: main_step_def dispatch_def resume_job_def sys_def)

lemma main_step_wait_for_fails:
  assumes "tokens \<noteq> []" and "tokens ! 0 = ''wait-for''" and "2 \<le> length tokens"
    and "sscanf_d e (tokens ! 1) = Some job_index"
    and "job_list_get jobs job_index = Some j"
    and "status j = BACKGROUND"
    and "ret e tr (WaitPid (pid j)) < 0"
  shows "main_step e tokens jobs tr =
     (Continue jobs,
      tr @ [WaitPid (pid j), Perror ''waitpid'',
            Stdout ''Failed to wait for background job'', Stdout PROMPT])"
  using assms by (simp add: main_step_def dispatch_def await_background_job_def sys_def)

lemma main_step_wait_all_fails:
  assumes "tokens \<noteq> []" and "tokens ! 0 = ''wait-all''"
    and "jobs = pre @ c # post"
    and "waits_succeed e tr pre" and "status c = BACKGROUND"
    and "ret e (tr @ waits_before pre (length pre)) (WaitPid (pid c)) < 0"
  shows "main_step e tokens jobs tr =
     (Continue (first_pass_spec e tr pre @ c # post),
      tr @ waits_before pre (length pre) @
        [WaitPid (pid c), Perror ''waitpid'',
         Stdout ''Failed to wait for all background jobs'', Stdout PROMPT])"
  using assms(1,2) await_first_pass_fails_at [OF assms(4,5,6), of "[]" post]
  by (simp add: main_step_def dispatch_def await_all_background_jobs_def assms(3))

lemma main_step_launch_fails:
  assumes "tokens \<noteq> []"
    and "tokens ! 0 \<notin> {''pwd'', ''cd'', ''exit'', ''jobs'', ''fg'', ''bg'', ''wait-for'', ''wait-all''}"
  shows "(ret e tr Fork < 0 \<longrightarrow>
            main_step e tokens jobs tr = (Return 1, tr @ [Fork, Perror ''fork failed.''])) \<and>
         (0 < ret e tr Fork \<and> tokens ! (length tokens - 1) \<noteq> ''&'' \<longrightarrow>
            (ret e (tr @ [Fork, GetPid]) (SetPgid (ret e tr Fork) (ret e tr Fork)) = -1 \<longrightarrow>
               main_step e tokens jobs tr =
                 (Return (- 1),
                  tr @ [Fork, GetPid, SetPgid (ret e tr Fork) (ret e tr Fork),
                        Perror ''setpgid failed''])) \<and>
            (ret e (tr @ [Fork, GetPid]) (SetPgid (ret e tr Fork) (ret e tr Fork)) \<noteq> -1 \<and>
             ret e (tr @ [Fork, GetPid, SetPgid (ret e tr Fork) (ret e tr Fork)])
               (TcSetPgrp (ret e tr Fork)) = -1 \<longrightarrow>
               main_step e tokens jobs tr =
                 (Return (- 1),
                  tr @ [Fork, GetPid, SetPgid (ret e tr Fork) (ret e tr Fork),
                        TcSetPgrp (ret e tr Fork), Perror ''tcsetpgrp failed''])) \<and>
            (ret e (tr @ [Fork, GetPid]) (SetPgid (ret e tr Fork) (ret e tr Fork)) \<noteq> -1 \<and>
             ret e (tr @ [Fork, GetPid, SetPgid (ret e tr Fork) (ret e tr Fork)])
               (TcSetPgrp (ret e tr Fork)) \<noteq> -1 \<and>
             ret e (tr @ [Fork, GetPid, SetPgid (ret e tr Fork) (ret e tr Fork),
                          TcSetPgrp (ret e tr Fork)]) (WaitPid (ret e tr Fork)) < 0 \<longrightarrow>
               main_step e tokens jobs tr =
                 (Return (- 1),
                  tr @ [Fork, GetPid, SetPgid (ret e tr Fork) (ret e tr Fork),
                        TcSetPgrp (ret e tr Fork), WaitPid (ret e tr Fork),
                        Perror ''waitpid() failed''])) \<and>
            (ret e (tr @ [Fork, GetPid]) (SetPgid (ret e tr Fork) (ret e tr Fork)) \<noteq> -1 \<and>
             ret e (tr @ [Fork, GetPid, SetPgid (ret e tr Fork) (ret e tr Fork)])
               (TcSetPgrp (ret e tr Fork)) \<noteq> -1 \<and>
             0 \<le> ret e (tr @ [Fork, GetPid, SetPgid (ret e tr Fork) (ret e tr Fork),
                               TcSetPgrp (ret e tr Fork)]) (WaitPid (ret e tr Fork)) \<and>
             ret e (tr @ [Fork, GetPid, SetPgid (ret e tr Fork) (ret e tr Fork),
                          TcSetPgrp (ret e tr Fork), WaitPid (ret e tr Fork)])
               (TcSetPgrp (ret e (tr @ [Fork]) GetPid)) = -1 \<longrightarrow>
               main_step e tokens jobs tr =
                 (Return (- 1),
                  tr @ [Fork, GetPid, SetPgid (ret e tr Fork) (ret e tr Fork),
                        TcSetPgrp (ret e tr Fork), WaitPid (ret e tr Fork),
                        TcSetPgrp (ret e (tr @ [Fork]) GetPid),
                        Perror ''Restoring parent process group failed''])))"
  using assms by (simp add: main_step_def dispatch_def launch_def sys_def Let_def)

text \<open>
  C2, as amended. A failed terminal transfer at the start of \<^verbatim>\<open>fg\<close>, a failed
  \<^verbatim>\<open>kill\<close> in \<^verbatim>\<open>bg\<close> and a failed \<^verbatim>\<open>waitpid\<close> in \<^verbatim>\<open>wait-for\<close> or \<^verbatim>\<open>wait-all\<close> end
  the operation there: the failing call is the last one made, \<^verbatim>\<open>perror\<close> reports it,
  \<^verbatim>\<open>main\<close> prints its "Failed to" line and the next prompt, and goes on. The registry is
  the one the round started with; in \<^verbatim>\<open>wait-all\<close> the records waited for before the
  failure keep the status the first pass gave them, and none is removed. A launch is
  different: a failed \<^verbatim>\<open>fork\<close> is reported and \<^verbatim>\<open>main\<close> returns 1; in the parent of
  a foreground launch a failed \<^verbatim>\<open>setpgid\<close>, \<^verbatim>\<open>tcsetpgrp\<close> or \<^verbatim>\<open>waitpid\<close> is
  reported and \<^verbatim>\<open>main\<close> returns \<^verbatim>\<open>-1\<close>, with no call made after the failing one.
\<close>

theorem job_control_failure_outcomes:
  assumes "tokens \<noteq> []"
  shows "(tokens ! 0 = ''fg'' \<and> 2 \<le> length tokens \<and>
          sscanf_d e (tokens ! 1) = Some job_index \<and> job_list_get jobs job_index = Some j \<and>
          ret e (tr @ [GetPgid 0]) (TcSetPgrp (pid j)) = -1 \<longrightarrow>
            main_step e tokens jobs tr =
              (Continue jobs,
               tr @ [GetPgid 0, TcSetPgrp (pid j), Perror ''tcsetpgrp'',
                     Stdout ''Failed to resume job in foreground'', Stdout PROMPT])) \<and>
         (tokens ! 0 = ''bg'' \<and> 2 \<le> length tokens \<and>
          sscanf_d e (tokens ! 1) = Some job_index \<and> job_list_get jobs job_index = Some j \<and>
          ret e (tr @ [GetPgid 0]) (Kill (- pid j) SIGCONT) = -1 \<longrightarrow>
            main_step e tokens jobs tr =
              (Continue jobs,
               tr @ [GetPgid 0, Kill (- pid j) SIGCONT, Perror ''kill'',
                     Stdout ''Failed to resume job in background'', Stdout PROMPT])) \<and>
         (tokens ! 0 = ''wait-for'' \<and> 2 \<le> length tokens \<and>
          sscanf_d e (tokens ! 1) = Some job_index \<and> job_list_get jobs job_index = Some j \<and>
          status j = BACKGROUND \<and> ret e tr (WaitPid (pid j)) < 0 \<longrightarrow>
            main_step e tokens jobs tr =
              (Continue jobs,
               tr @ [WaitPid (pid j), Perror ''waitpid'',
                     Stdout ''Failed to wait for background job'', Stdout PROMPT])) \<and>
         (tokens ! 0 = ''wait-all'' \<and> jobs = pre @ c # post \<and> waits_succeed e tr pre \<and>
          status c = BACKGROUND \<and>
          ret e (tr @ waits_before pre (length pre)) (WaitPid (pid c)) < 0 \<longrightarrow>
            main_step e tokens jobs tr =
              (Continue (first_pass_spec e tr pre @ c # post),
               tr @ waits_before pre (length pre) @
                 [WaitPid (pid c), Perror ''waitpid'',
                  Stdout ''Failed to wait for all background jobs'', Stdout PROMPT])) \<and>
         (tokens ! 0 \<notin> {''pwd'', ''cd'', ''exit'', ''jobs'', ''fg'', ''bg'', ''wait-for'', ''wait-all''} \<longrightarrow>
          (ret e tr Fork < 0 \<longrightarrow>
            main_step e tokens jobs tr = (Return 1, tr @ [Fork, Perror ''fork failed.''])) \<and>
          (0 < ret e tr Fork \<and> tokens ! (length tokens - 1) \<noteq> ''&'' \<longrightarrow>
            (ret e (tr @ [Fork, GetPid]) (SetPgid (ret e tr Fork) (ret e tr Fork)) = -1 \<longrightarrow>
               main_step e tokens jobs tr =
                 (Return (- 1),
                  tr @ [Fork, GetPid, SetPgid (ret e tr Fork) (ret e tr Fork),
                        Perror ''setpgid failed''])) \<and>
            (ret e (tr @ [Fork, GetPid]) (SetPgid (ret e tr Fork) (ret e tr Fork)) \<noteq> -1 \<and>
             ret e (tr @ [Fork, GetPid, SetPgid (ret e tr Fork) (ret e tr Fork)])
               (TcSetPgrp (ret e tr Fork)) = -1 \<longrightarrow>
               main_step e tokens jobs tr =
                 (Return (- 1),
                  tr @ [Fork, GetPid, SetPgid (ret e tr Fork) (ret e tr Fork),
                        TcSetPgrp (ret e tr Fork), Perror ''tcsetpgrp failed''])) \<and>
            (ret e (tr @ [Fork, GetPid]) (SetPgid (ret e tr Fork) (ret e tr Fork)) \<noteq> -1 \<and>
             ret e (tr @ [Fork, GetPid, SetPgid (ret e tr Fork) (ret e tr Fork)])
               (TcSetPgrp (ret e tr Fork)) \<noteq> -1 \<and>
             ret e (tr @ [Fork, GetPid, SetPgid (ret e tr Fork) (ret e tr Fork),
                          TcSetPgrp (ret e tr Fork)]) (WaitPid (ret e tr Fork)) < 0 \<longrightarrow>
               main_step e tokens jobs tr =
                 (Return (- 1),
                  tr @ [Fork, GetPid, SetPgid (ret e tr Fork) (ret e tr Fork),
                        TcSetPgrp (ret e tr Fork), WaitPid (ret e tr Fork),
                        Perror ''waitpid() failed''])) \<and>
            (ret e (tr @ [Fork, GetPid]) (SetPgid (ret e tr Fork) (ret e tr Fork)) \<noteq> -1 \<and>
             ret e (tr @ [Fork, GetPid, SetPgid (ret e tr Fork) (ret e tr Fork)])
               (TcSetPgrp (ret e tr Fork)) \<noteq> -1 \<and>
             0 \<le> ret e (tr @ [Fork, GetPid, SetPgid (ret e tr Fork) (ret e tr Fork),
                               TcSetPgrp (ret e tr Fork)]) (WaitPid (ret e tr Fork)) \<and>
             ret e (tr @ [Fork, GetPid, SetPgid (ret e tr Fork) (ret e tr Fork),
                          TcSetPgrp (ret e tr Fork), WaitPid (ret e tr Fork)])
               (TcSetPgrp (ret e (tr @ [Fork]) GetPid)) = -1 \<longrightarrow>
               main_step e tokens jobs tr =
                 (Return (- 1),
                  tr @ [Fork, GetPid, SetPgid (ret e tr Fork) (ret e tr Fork),
                        TcSetPgrp (ret e tr Fork), WaitPid (ret e tr Fork),
                        TcSetPgrp (ret e (tr @ [Fork]) GetPid),
                        Perror ''Restoring parent process group failed'']))))"
proof (intro conjI)
  show "tokens ! 0 = ''fg'' \<and> 2 \<le> length tokens \<and>
          sscanf_d e (tokens ! 1) = Some job_index \<and> job_list_get jobs job_index = Some j \<and>
          ret e (tr @ [GetPgid 0]) (TcSetPgrp (pid j)) = -1 \<longrightarrow>
            main_step e tokens jobs tr =
              (Continue jobs,
               tr @ [GetPgid 0, TcSetPgrp (pid j), Perror ''tcsetpgrp'',
                     Stdout ''Failed to resume job in foreground'', Stdout PROMPT])"
    using main_step_fg_transfer_fails [OF assms, of e job_index jobs j tr] by blast
  show "tokens ! 0 = ''bg'' \<and> 2 \<le> length tokens \<and>
          sscanf_d e (tokens ! 1) = Some job_index \<and> job_list_get jobs job_index = Some j \<and>
          ret e (tr @ [GetPgid 0]) (Kill (- pid j) SIGCONT) = -1 \<longrightarrow>
            main_step e tokens jobs tr =
              (Continue jobs,
               tr @ [GetPgid 0, Kill (- pid j) SIGCONT, Perror ''kill'',
                     Stdout ''Failed to resume job in background'', Stdout PROMPT])"
    using main_step_bg_kill_fails [OF assms, of e job_index jobs j tr] by blast
  show "tokens ! 0 = ''wait-for'' \<and> 2 \<le> length tokens \<and>
          sscanf_d e (tokens ! 1) = Some job_index \<and> job_list_get jobs job_index = Some j \<and>
          status j = BACKGROUND \<and> ret e tr (WaitPid (pid j)) < 0 \<longrightarrow>
            main_step e tokens jobs tr =
              (Continue jobs,
               tr @ [WaitPid (pid j), Perror ''waitpid'',
                     Stdout ''Failed to wait for background job'', Stdout PROMPT])"
    using main_step_wait_for_fails [OF assms, of e job_index jobs j tr] by blast
  show "tokens ! 0 = ''wait-all'' \<and> jobs = pre @ c # post \<and> waits_succeed e tr pre \<and>
          status c = BACKGROUND \<and>
          ret e (tr @ waits_before pre (length pre)) (WaitPid (pid c)) < 0 \<longrightarrow>
            main_step e tokens jobs tr =
              (Continue (first_pass_spec e tr pre @ c # post),
               tr @ waits_before pre (length pre) @
                 [WaitPid (pid c), Perror ''waitpid'',
                  Stdout ''Failed to wait for all background jobs'', Stdout PROMPT])"
    using main_step_wait_all_fails [OF assms, of jobs pre c post e tr] by blast
qed (rule impI, rule main_step_launch_fails [OF assms])

theorem job_control_failure_outcomes_witness:
  "main_step (failing_env (TcSetPgrp 7) (\<lambda>p. STATUS_EXIT0)) [''fg'', ''0'']
     [\<lparr>pid = 7, name = ''vi'', status = STOPPED\<rparr>] [] =
     (Continue [\<lparr>pid = 7, name = ''vi'', status = STOPPED\<rparr>],
      [GetPgid 0, TcSetPgrp 7, Perror ''tcsetpgrp'',
       Stdout ''Failed to resume job in foreground'', Stdout PROMPT]) \<and>
   main_step (failing_env (Kill (- 7) SIGCONT) (\<lambda>p. STATUS_EXIT0)) [''bg'', ''0'']
     [\<lparr>pid = 7, name = ''vi'', status = STOPPED\<rparr>] [] =
     (Continue [\<lparr>pid = 7, name = ''vi'', status = STOPPED\<rparr>],
      [GetPgid 0, Kill (- 7) SIGCONT, Perror ''kill'',
       Stdout ''Failed to resume job in background'', Stdout PROMPT]) \<and>
   main_step (failing_env (WaitPid 7) (\<lambda>p. STATUS_EXIT0)) [''wait-for'', ''0'']
     [\<lparr>pid = 7, name = ''sleep'', status = BACKGROUND\<rparr>] [] =
     (Continue [\<lparr>pid = 7, name = ''sleep'', status = BACKGROUND\<rparr>],
      [WaitPid 7, Perror ''waitpid'',
       Stdout ''Failed to wait for background job'', Stdout PROMPT]) \<and>
   main_step (failing_env (WaitPid 8) (\<lambda>p. STATUS_SIGSTOP)) [''wait-all'']
     [\<lparr>pid = 7, name = ''sleep'', status = BACKGROUND\<rparr>,
      \<lparr>pid = 8, name = ''cat'', status = BACKGROUND\<rparr>,
      \<lparr>pid = 9, name = ''vi'', status = STOPPED\<rparr>] [] =
     (Continue [\<lparr>pid = 7, name = ''sleep'', status = STOPPED\<rparr>,
                \<lparr>pid = 8, name = ''cat'', status = BACKGROUND\<rparr>,
                \<lparr>pid = 9, name = ''vi'', status = STOPPED\<rparr>],
      [WaitPid 7, WaitPid 8, Perror ''waitpid'',
       Stdout ''Failed to wait for all background jobs'', Stdout PROMPT]) \<and>
   main_step (failing_env Fork (\<lambda>p. STATUS_EXIT0)) [''ls'', ''-l''] [] [] =
     (Return 1, [Fork, Perror ''fork failed.'']) \<and>
   main_step (failing_env (SetPgid 101 101) (\<lambda>p. STATUS_EXIT0)) [''ls'', ''-l''] [] [] =
     (Return (- 1), [Fork, GetPid, SetPgid 101 101, Perror ''setpgid failed'']) \<and>
   main_step (failing_env (TcSetPgrp 101) (\<lambda>p. STATUS_EXIT0)) [''ls'', ''-l''] [] [] =
     (Return (- 1), [Fork, GetPid, SetPgid 101 101, TcSetPgrp 101, Perror ''tcsetpgrp failed'']) \<and>
   main_step (failing_env (WaitPid 101) (\<lambda>p. STATUS_EXIT0)) [''ls'', ''-l''] [] [] =
     (Return (- 1),
      [Fork, GetPid, SetPgid 101 101, TcSetPgrp 101, WaitPid 101, Perror ''waitpid() failed'']) \<and>
   main_step (failing_env (TcSetPgrp 100) (\<lambda>p. STATUS_EXIT0)) [''ls'', ''-l''] [] [] =
     (Return (- 1),
      [Fork, GetPid, SetPgid 101 101, TcSetPgrp 101, WaitPid 101, TcSetPgrp 100,
       Perror ''Restoring parent process group failed''])"
proof (intro conjI)
  show "main_step (failing_env (TcSetPgrp 7) (\<lambda>p. STATUS_EXIT0)) [''fg'', ''0''] [\<lparr>pid = 7, name = ''vi'', status = STOPPED\<rparr>] [] =
     (Continue [\<lparr>pid = 7, name = ''vi'', status = STOPPED\<rparr>],
      [GetPgid 0, TcSetPgrp 7, Perror ''tcsetpgrp'',
       Stdout ''Failed to resume job in foreground'', Stdout PROMPT])"
    using job_control_failure_outcomes
      [where tokens = "[''fg'', ''0'']" and e = "failing_env (TcSetPgrp 7) (\<lambda>p. STATUS_EXIT0)"
         and jobs = "[\<lparr>pid = 7, name = ''vi'', status = STOPPED\<rparr>]" and tr = "[]" and job_index = 0
         and j = "\<lparr>pid = 7, name = ''vi'', status = STOPPED\<rparr>"
         and pre = "[]" and c = "\<lparr>pid = 7, name = ''vi'', status = STOPPED\<rparr>"
         and post = "[]", THEN conjunct1, THEN mp]
    by (simp add: example_defs job_list_get_def)
  show "main_step (failing_env (Kill (- 7) SIGCONT) (\<lambda>p. STATUS_EXIT0)) [''bg'', ''0''] [\<lparr>pid = 7, name = ''vi'', status = STOPPED\<rparr>] [] =
     (Continue [\<lparr>pid = 7, name = ''vi'', status = STOPPED\<rparr>],
      [GetPgid 0, Kill (- 7) SIGCONT, Perror ''kill'',
       Stdout ''Failed to resume job in background'', Stdout PROMPT])"
    using job_control_failure_outcomes
      [where tokens = "[''bg'', ''0'']" and e = "failing_env (Kill (- 7) SIGCONT) (\<lambda>p. STATUS_EXIT0)"
         and jobs = "[\<lparr>pid = 7, name = ''vi'', status = STOPPED\<rparr>]" and tr = "[]" and job_index = 0
         and j = "\<lparr>pid = 7, name = ''vi'', status = STOPPED\<rparr>"
         and pre = "[]" and c = "\<lparr>pid = 7, name = ''vi'', status = STOPPED\<rparr>"
         and post = "[]", THEN conjunct2, THEN conjunct1, THEN mp]
    by (simp add: example_defs job_list_get_def)
  show "main_step (failing_env (WaitPid 7) (\<lambda>p. STATUS_EXIT0)) [''wait-for'', ''0''] [\<lparr>pid = 7, name = ''sleep'', status = BACKGROUND\<rparr>] [] =
     (Continue [\<lparr>pid = 7, name = ''sleep'', status = BACKGROUND\<rparr>],
      [WaitPid 7, Perror ''waitpid'',
       Stdout ''Failed to wait for background job'', Stdout PROMPT])"
    using job_control_failure_outcomes
      [where tokens = "[''wait-for'', ''0'']" and e = "failing_env (WaitPid 7) (\<lambda>p. STATUS_EXIT0)"
         and jobs = "[\<lparr>pid = 7, name = ''sleep'', status = BACKGROUND\<rparr>]" and tr = "[]" and job_index = 0
         and j = "\<lparr>pid = 7, name = ''sleep'', status = BACKGROUND\<rparr>"
         and pre = "[]" and c = "\<lparr>pid = 7, name = ''sleep'', status = BACKGROUND\<rparr>"
         and post = "[]", THEN conjunct2, THEN conjunct2, THEN conjunct1, THEN mp]
    by (simp add: example_defs job_list_get_def)
  show "main_step (failing_env (WaitPid 8) (\<lambda>p. STATUS_SIGSTOP)) [''wait-all'']
     [\<lparr>pid = 7, name = ''sleep'', status = BACKGROUND\<rparr>,
      \<lparr>pid = 8, name = ''cat'', status = BACKGROUND\<rparr>,
      \<lparr>pid = 9, name = ''vi'', status = STOPPED\<rparr>] [] =
     (Continue [\<lparr>pid = 7, name = ''sleep'', status = STOPPED\<rparr>,
                \<lparr>pid = 8, name = ''cat'', status = BACKGROUND\<rparr>,
                \<lparr>pid = 9, name = ''vi'', status = STOPPED\<rparr>],
      [WaitPid 7, WaitPid 8, Perror ''waitpid'',
       Stdout ''Failed to wait for all background jobs'', Stdout PROMPT])"
    using job_control_failure_outcomes
      [where tokens = "[''wait-all'']" and e = "failing_env (WaitPid 8) (\<lambda>p. STATUS_SIGSTOP)"
         and jobs = "[\<lparr>pid = 7, name = ''sleep'', status = BACKGROUND\<rparr>, \<lparr>pid = 8, name = ''cat'', status = BACKGROUND\<rparr>, \<lparr>pid = 9, name = ''vi'', status = STOPPED\<rparr>]" and tr = "[]" and job_index = 0
         and j = "\<lparr>pid = 7, name = ''sleep'', status = BACKGROUND\<rparr>"
         and pre = "[\<lparr>pid = 7, name = ''sleep'', status = BACKGROUND\<rparr>]" and c = "\<lparr>pid = 8, name = ''cat'', status = BACKGROUND\<rparr>"
         and post = "[\<lparr>pid = 9, name = ''vi'', status = STOPPED\<rparr>]", THEN conjunct2, THEN conjunct2, THEN conjunct2, THEN conjunct1, THEN mp]
    by (simp add: example_defs waits_succeed_def waits_before_def first_pass_spec_def
        reported_def example_statuses)
  show "main_step (failing_env Fork (\<lambda>p. STATUS_EXIT0)) [''ls'', ''-l''] [] [] =
     (Return 1, [Fork, Perror ''fork failed.''])"
    using job_control_failure_outcomes
      [where tokens = "[''ls'', ''-l'']" and e = "failing_env Fork (\<lambda>p. STATUS_EXIT0)"
         and jobs = "[]" and tr = "[]" and job_index = 0
         and j = "\<lparr>pid = 7, name = ''vi'', status = STOPPED\<rparr>"
         and pre = "[]" and c = "\<lparr>pid = 7, name = ''vi'', status = STOPPED\<rparr>"
         and post = "[]",
         THEN conjunct2, THEN conjunct2, THEN conjunct2, THEN conjunct2, THEN mp,
         THEN conjunct1, THEN mp]
    by (simp add: example_defs)
  show "main_step (failing_env (SetPgid 101 101) (\<lambda>p. STATUS_EXIT0)) [''ls'', ''-l''] [] [] =
     (Return (- 1), [Fork, GetPid, SetPgid 101 101, Perror ''setpgid failed''])"
    using job_control_failure_outcomes
      [where tokens = "[''ls'', ''-l'']" and e = "failing_env (SetPgid 101 101) (\<lambda>p. STATUS_EXIT0)"
         and jobs = "[]" and tr = "[]" and job_index = 0
         and j = "\<lparr>pid = 7, name = ''vi'', status = STOPPED\<rparr>"
         and pre = "[]" and c = "\<lparr>pid = 7, name = ''vi'', status = STOPPED\<rparr>"
         and post = "[]",
         THEN conjunct2, THEN conjunct2, THEN conjunct2, THEN conjunct2, THEN mp,
         THEN conjunct2, THEN mp, THEN conjunct1, THEN mp]
    by (simp add: example_defs)
  show "main_step (failing_env (TcSetPgrp 101) (\<lambda>p. STATUS_EXIT0)) [''ls'', ''-l''] [] [] =
     (Return (- 1), [Fork, GetPid, SetPgid 101 101, TcSetPgrp 101, Perror ''tcsetpgrp failed''])"
    using job_control_failure_outcomes
      [where tokens = "[''ls'', ''-l'']" and e = "failing_env (TcSetPgrp 101) (\<lambda>p. STATUS_EXIT0)"
         and jobs = "[]" and tr = "[]" and job_index = 0
         and j = "\<lparr>pid = 7, name = ''vi'', status = STOPPED\<rparr>"
         and pre = "[]" and c = "\<lparr>pid = 7, name = ''vi'', status = STOPPED\<rparr>"
         and post = "[]",
         THEN conjunct2, THEN conjunct2, THEN conjunct2, THEN conjunct2, THEN mp,
         THEN conjunct2, THEN mp, THEN conjunct2, THEN conjunct1, THEN mp]
    by (simp add: example_defs)
  show "main_step (failing_env (WaitPid 101) (\<lambda>p. STATUS_EXIT0)) [''ls'', ''-l''] [] [] =
     (Return (- 1), [Fork, GetPid, SetPgid 101 101, TcSetPgrp 101, WaitPid 101, Perror ''waitpid() failed''])"
    using job_control_failure_outcomes
      [where tokens = "[''ls'', ''-l'']" and e = "failing_env (WaitPid 101) (\<lambda>p. STATUS_EXIT0)"
         and jobs = "[]" and tr = "[]" and job_index = 0
         and j = "\<lparr>pid = 7, name = ''vi'', status = STOPPED\<rparr>"
         and pre = "[]" and c = "\<lparr>pid = 7, name = ''vi'', status = STOPPED\<rparr>"
         and post = "[]",
         THEN conjunct2, THEN conjunct2, THEN conjunct2, THEN conjunct2, THEN mp,
         THEN conjunct2, THEN mp, THEN conjunct2, THEN conjunct2, THEN conjunct1, THEN mp]
    by (simp add: example_defs)
  show "main_step (failing_env (TcSetPgrp 100) (\<lambda>p. STATUS_EXIT0)) [''ls'', ''-l''] [] [] =
     (Return (- 1), [Fork, GetPid, SetPgid 101 101, TcSetPgrp 101, WaitPid 101, TcSetPgrp 100,
       Perror ''Restoring parent process group failed''])"
    using job_control_failure_outcomes
      [where tokens = "[''ls'', ''-l'']" and e = "failing_env (TcSetPgrp 100) (\<lambda>p. STATUS_EXIT0)"
         and jobs = "[]" and tr = "[]" and job_index = 0
         and j = "\<lparr>pid = 7, name = ''vi'', status = STOPPED\<rparr>"
         and pre = "[]" and c = "\<lparr>pid = 7, name = ''vi'', status = STOPPED\<rparr>"
         and post = "[]",
         THEN conjunct2, THEN conjunct2, THEN conjunct2, THEN conjunct2, THEN mp,
         THEN conjunct2, THEN mp, THEN conjunct2, THEN conjunct2, THEN conjunct2, THEN mp]
    by (simp add: example_defs)
qed

text \<open>
  C2 as stated fails: a failed \<^verbatim>\<open>fork\<close>, a failed \<^verbatim>\<open>tcsetpgrp\<close> and a failed
  \<^verbatim>\<open>waitpid\<close> in the launch of \<^verbatim>\<open>ls\<close> each end the round with \<^verbatim>\<open>main\<close> returning,
  so the shell process ends.
\<close>

theorem launch_failure_ends_shell:
  "main_step (failing_env Fork (\<lambda>p. STATUS_EXIT0)) [''ls''] [] [] =
     (Return 1, [Fork, Perror ''fork failed.'']) \<and>
   main_step (failing_env (TcSetPgrp 101) (\<lambda>p. STATUS_EXIT0)) [''ls''] [] [] =
     (Return (- 1), [Fork, GetPid, SetPgid 101 101, TcSetPgrp 101, Perror ''tcsetpgrp failed'']) \<and>
   main_step (failing_env (WaitPid 101) (\<lambda>p. STATUS_EXIT0)) [''ls''] [] [] =
     (Return (- 1),
      [Fork, GetPid, SetPgid 101 101, TcSetPgrp 101, WaitPid 101, Perror ''waitpid() failed''])"
  by (simp add: main_step_def dispatch_def launch_def sys_def example_defs)

end
